theory Spec2Isabelle
  imports Complex_Main "HOL-Library.AList"
begin

section \<open>Data model\<close>

text \<open>
  The operators of the equation resolver work on result trees: a number, a matrix of
  numbers, or a unit annotation around another tree.

  A JavaScript \<^verbatim>\<open>number\<close> is kept abstract: it is any type \<open>'a\<close> that has the
  arithmetic operations the code uses (\<open>0\<close>, \<open>+\<close>, \<open>-\<close>, \<open>*\<close>, \<open>/\<close>), with no law
  assumed about them. A theorem below therefore holds for every interpretation of the
  arithmetic, and the laws a claim needs (commutativity, say) are hypotheses of its
  theorem. \<^verbatim>\<open>x === 0\<close> is \<open>x = 0\<close>; \<^verbatim>\<open>Math.pow\<close> is a parameter of the power
  operator. A value is truthy when it is not \<open>0\<close>: the falsy value NaN is not
  represented.

  An exception is a value \<open>Inl e\<close> of the result type; \<open>Error msg\<close> is
  \<^verbatim>\<open>new Error(msg)\<close>, \<open>TypeError\<close> is what JavaScript raises on reading a property of
  \<^verbatim>\<open>undefined\<close> (an index out of range followed by a property access).
\<close>

datatype error = Error string | TypeError | CastError

text \<open>
  \<^verbatim>\<open>UnitLookup = { [key: string]: number }\<close>: a plain object, that is a list of its own
  entries in the order of \<^verbatim>\<open>Object.entries\<close>, with \<open>AList.update\<close> as property
  assignment (an existing key keeps its place, a new key goes to the end). A property
  read looks at the own entries first and then at \<^verbatim>\<open>Object.prototype\<close> (\<open>getProperty\<close>
  below). Two things an object does are not modelled: an assignment to \<^verbatim>\<open>__proto__\<close>
  makes no own entry, and keys that are array indices are listed first. A plain object
  literal or an assignment gives a unit map no own key \<^verbatim>\<open>__proto__\<close>, so that none of
  the operators meets or makes one; and where the order of the keys of a combined unit
  map could differ, the maps are compared as sets of entries.
\<close>

type_synonym 'a unit_lookup = "(string \<times> 'a) list"

text \<open>
  \<^verbatim>\<open>ResultTreeMatrix = { type: 'matrix', m, n, values: ResultTreeNumber[][] }\<close>. A cell
  \<^verbatim>\<open>{ type: 'number', value }\<close> is represented by its \<^verbatim>\<open>value\<close>.
\<close>

record 'a result_tree_matrix =
  mat_m :: nat
  mat_n :: nat
  mat_values :: "'a list list"

text \<open>
  \<^verbatim>\<open>ResultTree\<close>. The TypeScript type of a unit's \<^verbatim>\<open>value\<close> is number or matrix, but
  the code only casts to it; the datatype allows any tree there, and the single level of
  wrapping is the predicate \<open>flat\<close>, which the theorems assume of operands and prove of
  results.
\<close>

datatype 'a result_tree =
    Number 'a
  | Matrix "'a result_tree_matrix"
  | Unit "'a unit_lookup" "'a result_tree"

type_synonym 'a res = "error + 'a result_tree"

fun isUnit :: "'a result_tree \<Rightarrow> bool" where
  "isUnit (Unit u v) = True"
| "isUnit _ = False"

fun isMatrix :: "'a result_tree \<Rightarrow> bool" where
  "isMatrix (Matrix x) = True"
| "isMatrix _ = False"

fun flat :: "'a result_tree \<Rightarrow> bool" where
  "flat (Unit u v) = (\<not> isUnit v)"
| "flat _ = True"

text \<open>The tree under all unit annotations.\<close>

fun payload :: "'a result_tree \<Rightarrow> 'a result_tree" where
  "payload (Unit u v) = payload v"
| "payload x = x"

section \<open>JavaScript helpers\<close>

text \<open>Sequencing of computations that may throw.\<close>

fun andThen :: "error + 'a \<Rightarrow> ('a \<Rightarrow> error + 'b) \<Rightarrow> error + 'b" where
  "andThen (Inl e) f = Inl e"
| "andThen (Inr x) f = f x"

text \<open>\<^verbatim>\<open>xs[i]\<close> followed by a property access: a \<^verbatim>\<open>TypeError\<close> out of range.\<close>

definition index :: "'a list \<Rightarrow> nat \<Rightarrow> error + 'a" where
  "index xs i = (if i < length xs then Inr (xs ! i) else Inl TypeError)"

text \<open>\<^verbatim>\<open>xs.map((x, i) => f(x, i))\<close>, left to right, stopping at the first exception.\<close>

fun map_from :: "nat \<Rightarrow> ('a \<Rightarrow> nat \<Rightarrow> error + 'b) \<Rightarrow> 'a list \<Rightarrow> error + 'b list" where
  "map_from i f [] = Inr []"
| "map_from i f (x # xs) =
     andThen (f x i) (\<lambda>y. andThen (map_from (Suc i) f xs) (\<lambda>ys. Inr (y # ys)))"

definition array_map :: "('a \<Rightarrow> nat \<Rightarrow> error + 'b) \<Rightarrow> 'a list \<Rightarrow> error + 'b list" where
  "array_map f xs = map_from 0 f xs"

text \<open>\<^verbatim>\<open>xs.reduce((current, x, i) => f(current, x, i), init)\<close>.\<close>

fun reduce_from ::
  "nat \<Rightarrow> ('b \<Rightarrow> 'a \<Rightarrow> nat \<Rightarrow> error + 'b) \<Rightarrow> 'b \<Rightarrow> 'a list \<Rightarrow> error + 'b" where
  "reduce_from i f current [] = Inr current"
| "reduce_from i f current (x # xs) =
     andThen (f current x i) (\<lambda>current'. reduce_from (Suc i) f current' xs)"

definition array_reduce ::
  "('b \<Rightarrow> 'a \<Rightarrow> nat \<Rightarrow> error + 'b) \<Rightarrow> 'b \<Rightarrow> 'a list \<Rightarrow> error + 'b" where
  "array_reduce f init xs = reduce_from 0 f init xs"

text \<open>A matrix dimension inside a template string.\<close>

fun string_of_nat :: "nat \<Rightarrow> string" where
  "string_of_nat k =
     (if k < 10 then [''0123456789'' ! k]
      else string_of_nat (k div 10) @ [''0123456789'' ! (k mod 10)])"

declare string_of_nat.simps [simp del]

text \<open>
  The cast \<^verbatim>\<open>as ResultTreeNumber\<close> on the result of a per-cell call. TypeScript does
  not check it; here it reads the number out of the result, and fails with \<open>CastError\<close>
  on a tree that is no number (which the per-cell calls never return, see
  \<open>plus_op_Number_Number\<close> and its siblings).
\<close>

fun asResultTreeNumber :: "'a res \<Rightarrow> error + 'a" where
  "asResultTreeNumber (Inl e) = Inl e"
| "asResultTreeNumber (Inr (Number v)) = Inr v"
| "asResultTreeNumber (Inr _) = Inl CastError"

section \<open>Value and unit utilities, matrix mapper, negation\<close>

text \<open>
  Modelled from the spec: \<^verbatim>\<open>valueWrap\<close> (module \<^verbatim>\<open>./value-wrap\<close>) is not among the
  sources. "\<^verbatim>\<open>wrapValue(x: float) -> Number\<close>: constructs a scalar result."
\<close>

definition valueWrap :: "'a \<Rightarrow> 'a result_tree" where
  "valueWrap x = Number x"

text \<open>
  Modelled from the spec: \<^verbatim>\<open>getUnit\<close> (module \<^verbatim>\<open>./unit-utils\<close>) is not among the
  sources. "returns \<^verbatim>\<open>x.units\<close> if \<^verbatim>\<open>x\<close> is a \<^verbatim>\<open>Unit\<close>, else an empty map."
\<close>

fun getUnit :: "'a result_tree \<Rightarrow> 'a unit_lookup" where
  "getUnit (Unit u v) = u"
| "getUnit _ = []"

text \<open>
  Modelled from the spec: \<^verbatim>\<open>getUnitless\<close> (module \<^verbatim>\<open>./unit-utils\<close>) is not among the
  sources. "returns \<^verbatim>\<open>x.value\<close> if \<^verbatim>\<open>x\<close> is \<^verbatim>\<open>Unit\<close>, else \<^verbatim>\<open>x\<close> unchanged."
\<close>

fun getUnitless :: "'a result_tree \<Rightarrow> 'a result_tree" where
  "getUnitless (Unit u v) = v"
| "getUnitless x = x"

text \<open>
  Modelled from the spec: \<^verbatim>\<open>isEmptyUnit\<close> (module \<^verbatim>\<open>./unit-utils\<close>) is not among
  the sources. "true iff the map has no entries."
\<close>

definition isEmptyUnit :: "'a unit_lookup \<Rightarrow> bool" where
  "isEmptyUnit u = (u = [])"

text \<open>
  Modelled from the spec: \<^verbatim>\<open>isSameUnit\<close> (module \<^verbatim>\<open>./unit-utils\<close>) is not among the
  sources. "true iff \<^verbatim>\<open>getUnit(a)\<close> and \<^verbatim>\<open>getUnit(b)\<close> have identical key sets and
  identical exponents for every key." The one call, in \<^verbatim>\<open>plus\<close>, passes the two unit
  maps themselves, so the function is modelled on unit maps.
\<close>

definition isSameUnit :: "'a unit_lookup \<Rightarrow> 'a unit_lookup \<Rightarrow> bool" where
  "isSameUnit a b =
     (set (map fst a) = set (map fst b) \<and>
      (\<forall>key \<in> set (map fst a). map_of a key = map_of b key))"

text \<open>
  Modelled from the spec: \<^verbatim>\<open>mapMatrix\<close> (module \<^verbatim>\<open>./map-matrix\<close>) is not among the
  sources. "applies \<^verbatim>\<open>f\<close> to every cell, returns a new Matrix of identical shape. Pure,
  shape-preserving, no error conditions beyond propagating errors raised by \<^verbatim>\<open>f\<close>."
  The cells are visited row by row.
\<close>

definition mapMatrix :: "'a result_tree_matrix \<Rightarrow> ('a \<Rightarrow> error + 'a) \<Rightarrow> 'a res" where
  "mapMatrix x f =
     andThen (array_map (\<lambda>row rowIdx. array_map (\<lambda>cell cellIdx. f cell) row) (mat_values x))
       (\<lambda>vs. Inr (Matrix (x\<lparr>mat_values := vs\<rparr>)))"

text \<open>
  Modelled from the spec: \<^verbatim>\<open>negate\<close> (module \<^verbatim>\<open>./negate\<close>) is not among the sources.
  "flips the sign of every scalar leaf; unit annotations and matrix shape are preserved
  unchanged."
\<close>

fun negate :: "'a::uminus result_tree \<Rightarrow> 'a result_tree" where
  "negate (Number x) = Number (- x)"
| "negate (Matrix x) = Matrix (x\<lparr>mat_values := map (map uminus) (mat_values x)\<rparr>)"
| "negate (Unit u v) = Unit u (negate v)"

section \<open>The case handler\<close>

lemma size_getUnitless: "size (getUnitless x) \<le> size x"
  by (cases x) simp_all

lemma size_getUnitless_Unit: "isUnit x \<Longrightarrow> size (getUnitless x) < size x"
  by (cases x) simp_all

text \<open>
  \<^verbatim>\<open>handleCases\<close>. A combinator that is \<^verbatim>\<open>null\<close> is \<open>None\<close>. A combinator gets the
  operands narrowed to number or matrix, as its TypeScript type says. The nested
  \<^verbatim>\<open>switch\<close> falls through to the final \<^verbatim>\<open>throw\<close> on every pair it does not return
  from.
\<close>

function handleCases ::
  "'a result_tree \<Rightarrow> 'a result_tree \<Rightarrow>
   ('a unit_lookup \<Rightarrow> 'a unit_lookup \<Rightarrow> error + 'a unit_lookup) \<Rightarrow>
   ('a \<Rightarrow> 'a \<Rightarrow> 'a res) option \<Rightarrow>
   ('a \<Rightarrow> 'a result_tree_matrix \<Rightarrow> 'a res) option \<Rightarrow>
   ('a result_tree_matrix \<Rightarrow> 'a \<Rightarrow> 'a res) option \<Rightarrow>
   ('a result_tree_matrix \<Rightarrow> 'a result_tree_matrix \<Rightarrow> 'a res) option \<Rightarrow> 'a res" where
  "handleCases a b combineUnits numberNumber numberMatrix matrixNumber matrixMatrix =
     (if isUnit a \<or> isUnit b then
        andThen (combineUnits (getUnit a) (getUnit b)) (\<lambda>units.
        andThen (handleCases (getUnitless a) (getUnitless b) combineUnits
                   numberNumber numberMatrix matrixNumber matrixMatrix) (\<lambda>result.
        if isEmptyUnit units then Inr result else Inr (Unit units result)))
      else
        (case a of
           Number x \<Rightarrow>
             (case b of
                Number y \<Rightarrow>
                  (case numberNumber of
                     Some f \<Rightarrow> f x y
                   | None \<Rightarrow> Inl (Error ''Equation resolve: cannot handle operator''))
              | Matrix y \<Rightarrow>
                  (case numberMatrix of
                     Some f \<Rightarrow> f x y
                   | None \<Rightarrow> Inl (Error ''Equation resolve: cannot handle operator''))
              | Unit u v \<Rightarrow> Inl (Error ''Equation resolve: cannot handle operator''))
         | Matrix x \<Rightarrow>
             (case b of
                Number y \<Rightarrow>
                  (case matrixNumber of
                     Some f \<Rightarrow> f x y
                   | None \<Rightarrow> Inl (Error ''Equation resolve: cannot handle operator''))
              | Matrix y \<Rightarrow>
                  (case matrixMatrix of
                     Some f \<Rightarrow> f x y
                   | None \<Rightarrow> Inl (Error ''Equation resolve: cannot handle operator''))
              | Unit u v \<Rightarrow> Inl (Error ''Equation resolve: cannot handle operator''))
         | Unit u v \<Rightarrow> Inl (Error ''Equation resolve: cannot handle operator'')))"
  by pat_completeness auto
termination
  by (relation "measure (\<lambda>(a, b, _). size a + size b)")
    (auto simp: size_getUnitless size_getUnitless_Unit add_le_less_mono add_less_le_mono)

declare handleCases.simps [simp del]

text \<open>
  Which combinator a call can reach: the number-matrix one only when the right operand is
  a matrix under its units, the two others only when the left one is. The operators
  below call themselves on the cells of a matrix from inside these combinators, and this
  is what makes their recursion end.
\<close>

lemma payload_getUnitless: "payload (getUnitless x) = payload x"
  by (cases x) simp_all

lemma handleCases_cong [fundef_cong]:
  assumes "a = a'" "b = b'" "cu = cu'" "nn = nn'"
    and "\<And>x y. isMatrix (payload b') \<Longrightarrow>
           map_option (\<lambda>f. f x y) nm = map_option (\<lambda>f. f x y) nm'"
    and "\<And>x y. isMatrix (payload a') \<Longrightarrow>
           map_option (\<lambda>f. f x y) mn = map_option (\<lambda>f. f x y) mn'"
    and "\<And>x y. isMatrix (payload a') \<Longrightarrow>
           map_option (\<lambda>f. f x y) mm = map_option (\<lambda>f. f x y) mm'"
  shows "handleCases a b cu nn nm mn mm = handleCases a' b' cu' nn' nm' mn' mm'"
  unfolding assms(1-4)
  using assms(5-7)
proof (induction a' b' cu' nn' nm mn mm rule: handleCases.induct)
  case (1 a b cu nn nm mn mm)
  show ?case
  proof (cases "isUnit a \<or> isUnit b")
    case True
    show ?thesis
    proof (cases "cu (getUnit a) (getUnit b)")
      case (Inl e)
      with True show ?thesis
        by (subst (1 2) handleCases.simps) simp
    next
      case (Inr units)
      have "handleCases (getUnitless a) (getUnitless b) cu nn nm mn mm =
            handleCases (getUnitless a) (getUnitless b) cu nn nm' mn' mm'"
        using True Inr "1.prems" by (intro "1.IH") (auto simp: payload_getUnitless)
      with True Inr show ?thesis
        by (subst (1 2) handleCases.simps) simp
    qed
  next
    case False
    show ?thesis
    proof (cases a)
      case (Number x)
      show ?thesis
      proof (cases b)
        case (Matrix y)
        with "1.prems"(1)[of x y] Number False show ?thesis
          by (subst (1 2) handleCases.simps) (auto split: option.splits)
      qed (use Number False in \<open>simp_all add: handleCases.simps\<close>)
    next
      case (Matrix x)
      show ?thesis
      proof (cases b)
        case (Number y)
        with "1.prems"(2)[of x y] Matrix False show ?thesis
          by (subst (1 2) handleCases.simps) (auto split: option.splits)
      next
        case M2: (Matrix y)
        with "1.prems"(3)[of x y] Matrix False show ?thesis
          by (subst (1 2) handleCases.simps) (auto split: option.splits)
      qed (use Matrix False in \<open>simp_all add: handleCases.simps\<close>)
    qed (use False in \<open>simp_all add: handleCases.simps\<close>)
  qed
qed

section \<open>Unit algebra\<close>

text \<open>
  A property read \<^verbatim>\<open>obj[key]\<close> on a unit map. A unit map is a plain object: a key it
  does not own is looked up in \<^verbatim>\<open>Object.prototype\<close>, whose members (of a standard realm)
  are listed in \<open>objectPrototypeKeys\<close>. So the read gives the own value, or the inherited
  member, or \<^verbatim>\<open>undefined\<close>.
\<close>

datatype 'a property = Undefined | Own 'a | Inherited string

definition objectPrototypeKeys :: "string list" where
  "objectPrototypeKeys =
     [''constructor'', ''__defineGetter__'', ''__defineSetter__'', ''hasOwnProperty'',
      ''__lookupGetter__'', ''__lookupSetter__'', ''isPrototypeOf'', ''propertyIsEnumerable'',
      ''toString'', ''valueOf'', ''__proto__'', ''toLocaleString'']"

definition getProperty :: "'a unit_lookup \<Rightarrow> string \<Rightarrow> 'a property" where
  "getProperty obj key =
     (case map_of obj key of
        Some v \<Rightarrow> Own v
      | None \<Rightarrow> if key \<in> set objectPrototypeKeys then Inherited key else Undefined)"

text \<open>
  An inherited member is a function (an object for \<^verbatim>\<open>__proto__\<close>) and no number. Where the
  code hands it to the arithmetic, the result is whatever JavaScript's arithmetic makes of
  it (\<^verbatim>\<open>1 + Object\<close> is the string \<^verbatim>\<open>"1function Object() { [native code] }"\<close>). The model fixes
  no value for it: \<open>inheritedMember key\<close> is a value of which nothing is known.
\<close>

definition inheritedMember :: "string \<Rightarrow> 'a" where
  "inheritedMember = undefined"

text \<open>
  \<^verbatim>\<open>obj[key]\<close> as a condition, and \<^verbatim>\<open>obj[key] || 0\<close>. A function or an object is truthy.
\<close>

fun truthy :: "'a::zero property \<Rightarrow> bool" where
  "truthy Undefined = False"
| "truthy (Own v) = (v \<noteq> 0)"
| "truthy (Inherited key) = True"

fun or_zero :: "'a::zero property \<Rightarrow> 'a" where
  "or_zero Undefined = 0"
| "or_zero (Own v) = (if v \<noteq> 0 then v else 0)"
| "or_zero (Inherited key) = inheritedMember key"

text \<open>
  \<^verbatim>\<open>mapUnit\<close> and \<^verbatim>\<open>mapUnits\<close> call a function they are given. That function is modelled
  with a state \<open>'s\<close> of its own, which the loops pass along from one call to the next:
  what the mapper does to its state shows how often, in which order and with which
  arguments it is called. \<open>mapUnit_loop\<close> is the \<^verbatim>\<open>for\<close> loop of \<^verbatim>\<open>mapUnit\<close> over
  \<^verbatim>\<open>Object.entries(x)\<close>, \<open>mapUnits_loop\<close> the one of \<^verbatim>\<open>mapUnits\<close> over
  \<^verbatim>\<open>Object.entries(b)\<close>.
\<close>

fun mapUnit_loop ::
  "(string \<times> 'a) list \<Rightarrow> ('a \<Rightarrow> string \<Rightarrow> 's \<Rightarrow> 'a \<times> 's) \<Rightarrow> 'a::zero unit_lookup \<Rightarrow> 's \<Rightarrow>
   'a unit_lookup \<times> 's" where
  "mapUnit_loop [] mapper result s = (result, s)"
| "mapUnit_loop ((key, value) # entries) mapper result s =
     (case mapper value key s of
        (newValue, s') \<Rightarrow>
          mapUnit_loop entries mapper
            (if newValue \<noteq> 0 then AList.update key newValue result else result) s')"

definition mapUnit_st ::
  "'a::zero unit_lookup \<Rightarrow> ('a \<Rightarrow> string \<Rightarrow> 's \<Rightarrow> 'a \<times> 's) \<Rightarrow> 's \<Rightarrow> 'a unit_lookup \<times> 's" where
  "mapUnit_st x mapper s = mapUnit_loop x mapper [] s"

fun mapUnits_loop ::
  "(string \<times> 'a) list \<Rightarrow> 'a::zero unit_lookup \<Rightarrow> ('a \<Rightarrow> 'a \<Rightarrow> string \<Rightarrow> 's \<Rightarrow> 'a \<times> 's) \<Rightarrow>
   'a unit_lookup \<Rightarrow> 's \<Rightarrow> 'a unit_lookup \<times> 's" where
  "mapUnits_loop [] a mapper result s = (result, s)"
| "mapUnits_loop ((key, value) # entries) a mapper result s =
     (if truthy (getProperty a key) then mapUnits_loop entries a mapper result s
      else
        (case mapper 0 value key s of
           (newValue, s') \<Rightarrow>
             mapUnits_loop entries a mapper
               (if newValue \<noteq> 0 then AList.update key newValue result else result) s'))"

definition mapUnits_st ::
  "'a::zero unit_lookup \<Rightarrow> 'a unit_lookup \<Rightarrow> ('a \<Rightarrow> 'a \<Rightarrow> string \<Rightarrow> 's \<Rightarrow> 'a \<times> 's) \<Rightarrow> 's \<Rightarrow>
   'a unit_lookup \<times> 's" where
  "mapUnits_st a b mapper s =
     (case mapUnit_st a (\<lambda>value key. mapper value (or_zero (getProperty b key)) key) s of
        (result, s') \<Rightarrow> mapUnits_loop b a mapper result s')"

text \<open>The operators pass mappers without effects: the state is \<open>()\<close>.\<close>

definition mapUnit :: "'a::zero unit_lookup \<Rightarrow> ('a \<Rightarrow> string \<Rightarrow> 'a) \<Rightarrow> 'a unit_lookup" where
  "mapUnit x mapper = fst (mapUnit_st x (\<lambda>value key s. (mapper value key, s)) ())"

definition mapUnits ::
  "'a::zero unit_lookup \<Rightarrow> 'a unit_lookup \<Rightarrow> ('a \<Rightarrow> 'a \<Rightarrow> string \<Rightarrow> 'a) \<Rightarrow> 'a unit_lookup" where
  "mapUnits a b mapper = fst (mapUnits_st a b (\<lambda>x y key s. (mapper x y key, s)) ())"

section \<open>Operators\<close>

function plus_op :: "'a::plus result_tree \<Rightarrow> 'a result_tree \<Rightarrow> 'a res" where
  "plus_op aTree bTree =
     handleCases aTree bTree
       (\<lambda>a b.
          if \<not> isSameUnit a b
          then Inl (Error ''Equation resolve: cannot add different units'')
          else Inr a)
       \<comment> \<open>number, number\<close>
       (Some (\<lambda>a b. Inr (valueWrap (a + b))))
       \<comment> \<open>number, matrix\<close>
       (Some (\<lambda>a b. mapMatrix b (\<lambda>cell. asResultTreeNumber (plus_op (Number a) (Number cell)))))
       \<comment> \<open>matrix, number\<close>
       (Some (\<lambda>a b. mapMatrix a (\<lambda>cell. asResultTreeNumber (plus_op (Number cell) (Number b)))))
       \<comment> \<open>matrix, matrix\<close>
       (Some (\<lambda>a b.
          if mat_n a \<noteq> mat_n b \<or> mat_m a \<noteq> mat_m b
          then Inl (Error (''Equation resolve: cannot add '' @ string_of_nat (mat_m a) @ ''x'' @
                 string_of_nat (mat_n a) @ '' matrix to '' @ string_of_nat (mat_m b) @ ''x'' @
                 string_of_nat (mat_n b) @ '' matrix''))
          else
            andThen
              (array_map
                 (\<lambda>row rowIdx.
                    array_map
                      (\<lambda>cell cellIdx.
                         andThen (index (mat_values b) rowIdx) (\<lambda>bRow.
                         andThen (index bRow cellIdx) (\<lambda>bCell.
                         asResultTreeNumber (plus_op (Number cell) (Number bCell)))))
                      row)
                 (mat_values a))
              (\<lambda>vs. Inr (Matrix \<lparr>mat_m = mat_m a, mat_n = mat_n a, mat_values = vs\<rparr>))))"
  by pat_completeness auto
termination
  by (relation "measure (\<lambda>(a, b). if isMatrix (payload a) \<or> isMatrix (payload b) then 1 else 0)")
    simp_all

declare plus_op.simps [simp del]

definition minus_op :: "'a::{plus,uminus} result_tree \<Rightarrow> 'a result_tree \<Rightarrow> 'a res" where
  "minus_op a b = plus_op a (negate b)"

definition scalarProduct ::
  "'a::{zero,plus,times} result_tree_matrix \<Rightarrow> 'a result_tree_matrix \<Rightarrow> 'a res" where
  "scalarProduct a b =
     (if mat_m a \<noteq> mat_m b
      then Inl (Error ''Equation resolve: scalar product requires balanced vectors'')
      else
        andThen
          (array_reduce
             (\<lambda>current row rowIdx.
                andThen (index row 0) (\<lambda>aCell.
                andThen (index (mat_values b) rowIdx) (\<lambda>bRow.
                andThen (index bRow 0) (\<lambda>bCell.
                Inr (current + aCell * bCell)))))
             0 (mat_values a))
          (\<lambda>sum. Inr (valueWrap sum)))"

definition matrixProduct ::
  "'a::{zero,plus,times} result_tree_matrix \<Rightarrow> 'a result_tree_matrix \<Rightarrow> 'a res" where
  "matrixProduct a b =
     (if mat_n a \<noteq> mat_m b
      then Inl (Error (''Equation resolve: cannot multiply '' @ string_of_nat (mat_m a) @ ''x'' @
             string_of_nat (mat_n a) @ '' matrix with '' @ string_of_nat (mat_m b) @ ''x'' @
             string_of_nat (mat_n b) @ '' matrix''))
      else
        andThen
          (array_map
             (\<lambda>row aRow.
                andThen (index (mat_values b) 0) (\<lambda>bRow0.
                array_map
                  (\<lambda>cell bCol.
                     andThen (index (mat_values a) aRow) (\<lambda>aRowCells.
                     array_reduce
                       (\<lambda>current innerCell colIdx.
                          andThen (index (mat_values b) colIdx) (\<lambda>bRow.
                          andThen (index bRow bCol) (\<lambda>bCell.
                          Inr (current + innerCell * bCell))))
                       0 aRowCells))
                  bRow0))
             (mat_values a))
          (\<lambda>vs. Inr (Matrix \<lparr>mat_m = mat_m a, mat_n = mat_n b, mat_values = vs\<rparr>)))"

function multiply :: "'a::{zero,plus,times} result_tree \<Rightarrow> 'a result_tree \<Rightarrow> 'a res" where
  "multiply aTree bTree =
     handleCases aTree bTree
       (\<lambda>a b. Inr (mapUnits a b (\<lambda>unit1 unit2 key. unit1 + unit2)))
       \<comment> \<open>number, number\<close>
       (Some (\<lambda>a b. Inr (valueWrap (a * b))))
       \<comment> \<open>number, matrix\<close>
       (Some (\<lambda>a b. mapMatrix b (\<lambda>cell. asResultTreeNumber (multiply (Number a) (Number cell)))))
       \<comment> \<open>matrix, number\<close>
       (Some (\<lambda>a b. mapMatrix a (\<lambda>cell. asResultTreeNumber (multiply (Number cell) (Number b)))))
       \<comment> \<open>matrix, matrix\<close>
       (Some (\<lambda>a b.
          if mat_n a = 1 \<and> mat_n b = 1 then scalarProduct a b else matrixProduct a b))"
  by pat_completeness auto
termination
  by (relation "measure (\<lambda>(a, b). if isMatrix (payload a) \<or> isMatrix (payload b) then 1 else 0)")
    simp_all

declare multiply.simps [simp del]

text \<open>The test \<^verbatim>\<open>x.type === 'matrix' && x.n === 1\<close>.\<close>

fun isColumn :: "'a result_tree \<Rightarrow> bool" where
  "isColumn (Matrix x) = (mat_n x = 1)"
| "isColumn _ = False"

definition multiplyImplied ::
  "'a::{zero,plus,times} result_tree \<Rightarrow> 'a result_tree \<Rightarrow> 'a res" where
  "multiplyImplied a b =
     (if isColumn a \<and> isColumn b
      then Inl (Error ''Equation resolve: cannot use implied multiplication for scalar product'')
      else multiply a b)"

text \<open>The test \<^verbatim>\<open>bTree.type === 'number' && bTree.value === 0\<close>.\<close>

fun isNumberZero :: "'a::zero result_tree \<Rightarrow> bool" where
  "isNumberZero (Number v) = (v = 0)"
| "isNumberZero _ = False"

function divide_op :: "'a::{zero,minus,inverse} result_tree \<Rightarrow> 'a result_tree \<Rightarrow> 'a res" where
  "divide_op aTree bTree =
     (if isNumberZero bTree then Inl (Error ''Equation resolve: cannot divide by 0'')
      else
        handleCases aTree bTree
          (\<lambda>a b. Inr (mapUnits a b (\<lambda>factor1 factor2 key. factor1 - factor2)))
          \<comment> \<open>number, number\<close>
          (Some (\<lambda>a b. Inr (valueWrap (a / b))))
          \<comment> \<open>number, matrix\<close>
          (Some (\<lambda>a b. mapMatrix b (\<lambda>cell. asResultTreeNumber (divide_op (Number a) (Number cell)))))
          \<comment> \<open>matrix, number\<close>
          (Some (\<lambda>a b. mapMatrix a (\<lambda>cell. asResultTreeNumber (divide_op (Number cell) (Number b)))))
          \<comment> \<open>matrix, matrix\<close>
          None)"
  by pat_completeness auto
termination
  by (relation "measure (\<lambda>(a, b). if isMatrix (payload a) \<or> isMatrix (payload b) then 1 else 0)")
    simp_all

declare divide_op.simps [simp del]

text \<open>
  \<^verbatim>\<open>power\<close>, with \<^verbatim>\<open>Math.pow\<close> as the parameter \<open>Math_pow\<close>. After the two tests
  \<^verbatim>\<open>bTree\<close> is a number, and the unit rule reads its \<^verbatim>\<open>value\<close>.
\<close>

definition power_op ::
  "('a \<Rightarrow> 'a \<Rightarrow> 'a) \<Rightarrow> 'a::{zero,times} result_tree \<Rightarrow> 'a result_tree \<Rightarrow> 'a res" where
  "power_op Math_pow aTree bTree =
     (if isUnit bTree then Inl (Error ''Equation resolve: exponent must be unitless'')
      else
        (case bTree of
           Number bValue \<Rightarrow>
             handleCases aTree bTree
               (\<lambda>a b. Inr (mapUnit a (\<lambda>factor key. factor * bValue)))
               \<comment> \<open>number, number\<close>
               (Some (\<lambda>a b. Inr (valueWrap (Math_pow a b))))
               \<comment> \<open>number, matrix\<close>
               None
               \<comment> \<open>matrix, number\<close>
               (Some (\<lambda>a b. mapMatrix a (\<lambda>cell. asResultTreeNumber (Inr (valueWrap (Math_pow cell b))))))
               \<comment> \<open>matrix, matrix\<close>
               None
         | _ \<Rightarrow> Inl (Error ''Equation resolve: exponent must be a number'')))"

section \<open>Vocabulary of the properties\<close>

text \<open>The step \<^verbatim>\<open>if (newValue !== 0) { result[key] = newValue }\<close> of both loops.\<close>

definition keep_nonzero :: "string \<Rightarrow> 'a::zero \<Rightarrow> 'a unit_lookup \<Rightarrow> 'a unit_lookup" where
  "keep_nonzero key newValue result =
     (if newValue \<noteq> 0 then AList.update key newValue result else result)"

text \<open>
  The invariant of a unit map in the data model: the keys of an object are distinct, and
  no entry has the exponent \<open>0\<close>.
\<close>

definition unitMapInvariant :: "'a::zero unit_lookup \<Rightarrow> bool" where
  "unitMapInvariant u = (distinct (map fst u) \<and> (\<forall>(key, v)\<in>set u. v \<noteq> 0))"

text \<open>
  Unit maps none of whose keys is the name of a member of \<^verbatim>\<open>Object.prototype\<close>: on them a
  property read finds own entries only. \<open>exponentOf u key\<close> is the exponent of \<open>key\<close> in
  \<open>u\<close>, \<open>0\<close> for a key that \<open>u\<close> does not have.
\<close>

definition ordinaryKeys :: "'a unit_lookup \<Rightarrow> bool" where
  "ordinaryKeys u = (set (map fst u) \<inter> set objectPrototypeKeys = {})"

definition exponentOf :: "'a::zero unit_lookup \<Rightarrow> string \<Rightarrow> 'a" where
  "exponentOf u key = (case map_of u key of None \<Rightarrow> 0 | Some v \<Rightarrow> v)"

text \<open>
  A mapper that computes \<open>f\<close> and, as its effect, appends the arguments of the call to
  a log.
\<close>

definition logged ::
  "('a \<Rightarrow> 'a \<Rightarrow> string \<Rightarrow> 'a) \<Rightarrow> 'a \<Rightarrow> 'a \<Rightarrow> string \<Rightarrow> ('a \<times> 'a \<times> string) list \<Rightarrow>
   'a \<times> ('a \<times> 'a \<times> string) list" where
  "logged f = (\<lambda>x y key calls. (f x y key, calls @ [(x, y, key)]))"

text \<open>
  The invariant of a matrix in the data model: at least one row and one column, and
  \<open>m\<close> and \<open>n\<close> are the numbers of rows and of cells in every row.
\<close>

definition wellFormed :: "'a result_tree_matrix \<Rightarrow> bool" where
  "wellFormed x =
     (0 < mat_m x \<and> 0 < mat_n x \<and> length (mat_values x) = mat_m x \<and>
      (\<forall>row\<in>set (mat_values x). length row = mat_n x))"

text \<open>The cell in row \<open>i\<close> and column \<open>j\<close>.\<close>

definition cellAt :: "'a result_tree_matrix \<Rightarrow> nat \<Rightarrow> nat \<Rightarrow> 'a" where
  "cellAt x i j = mat_values x ! i ! j"

text \<open>
  The inner-product sum \<open>f 0 * g 0 + \<dots> + f (k - 1) * g (k - 1)\<close> of the spec, added up
  from \<open>0\<close> in this order (the order matters for floating-point numbers); in a
  semiring it is the sum \<open>\<Sum>i<k. f i * g i\<close> (\<open>inner_product_sum\<close>).
\<close>

definition inner_product :: "nat \<Rightarrow> (nat \<Rightarrow> 'a) \<Rightarrow> (nat \<Rightarrow> 'a) \<Rightarrow> 'a::{zero,plus,times}" where
  "inner_product k f g = foldl (\<lambda>current i. current + f i * g i) 0 [0..<k]"

text \<open>
  A scalar operand: a number, bare or inside one unit annotation (whose unit map, an
  object, has distinct keys).
\<close>

fun isScalar :: "'a result_tree \<Rightarrow> bool" where
  "isScalar (Number x) = True"
| "isScalar (Unit u (Number x)) = distinct (map fst u)"
| "isScalar _ = False"

text \<open>
  Equality of results as values: the same tree, with unit maps compared as sets of entries,
  so that the order in which an object lists its keys does not count.
\<close>

fun sameTree :: "'a result_tree \<Rightarrow> 'a result_tree \<Rightarrow> bool" where
  "sameTree (Number x) (Number y) = (x = y)"
| "sameTree (Matrix x) (Matrix y) = (x = y)"
| "sameTree (Unit u p) (Unit v q) = (set u = set v \<and> sameTree p q)"
| "sameTree _ _ = False"

fun sameResult :: "'a res \<Rightarrow> 'a res \<Rightarrow> bool" where
  "sameResult (Inl e) (Inl e') = (e = e')"
| "sameResult (Inr s) (Inr t) = sameTree s t"
| "sameResult _ _ = False"

text \<open>The last step of the case handler on units.\<close>

definition wrapUnit :: "'a unit_lookup \<Rightarrow> 'a result_tree \<Rightarrow> 'a result_tree" where
  "wrapUnit units result = (if isEmptyUnit units then result else Unit units result)"

text \<open>
  What the TypeScript types say of the four combinators: one that is present returns, when
  it returns, a number or a matrix.
\<close>

definition unitlessResults ::
  "('a \<Rightarrow> 'a \<Rightarrow> 'a res) option \<Rightarrow>
   ('a \<Rightarrow> 'a result_tree_matrix \<Rightarrow> 'a res) option \<Rightarrow>
   ('a result_tree_matrix \<Rightarrow> 'a \<Rightarrow> 'a res) option \<Rightarrow>
   ('a result_tree_matrix \<Rightarrow> 'a result_tree_matrix \<Rightarrow> 'a res) option \<Rightarrow> bool" where
  "unitlessResults numberNumber numberMatrix matrixNumber matrixMatrix =
     ((\<forall>f x y r. numberNumber = Some f \<longrightarrow> f x y = Inr r \<longrightarrow> \<not> isUnit r) \<and>
      (\<forall>f x y r. numberMatrix = Some f \<longrightarrow> f x y = Inr r \<longrightarrow> \<not> isUnit r) \<and>
      (\<forall>f x y r. matrixNumber = Some f \<longrightarrow> f x y = Inr r \<longrightarrow> \<not> isUnit r) \<and>
      (\<forall>f x y r. matrixMatrix = Some f \<longrightarrow> f x y = Inr r \<longrightarrow> \<not> isUnit r))"

section \<open>How the case handler and the operators evaluate\<close>

lemma handleCases_Unit:
  "isUnit a \<or> isUnit b \<Longrightarrow>
   handleCases a b cu nn nm mn mm =
     andThen (cu (getUnit a) (getUnit b)) (\<lambda>units.
     andThen (handleCases (getUnitless a) (getUnitless b) cu nn nm mn mm) (\<lambda>result.
     if isEmptyUnit units then Inr result else Inr (Unit units result)))"
  by (subst handleCases.simps) simp

lemma handleCases_Number_Number:
  "handleCases (Number x) (Number y) cu (Some f) nm mn mm = f x y"
  by (subst handleCases.simps) simp

lemma handleCases_Number_Matrix:
  "handleCases (Number x) (Matrix y) cu nn (Some f) mn mm = f x y"
  by (subst handleCases.simps) simp

lemma handleCases_Matrix_Number:
  "handleCases (Matrix x) (Number y) cu nn nm (Some f) mm = f x y"
  by (subst handleCases.simps) simp

lemma handleCases_Matrix_Matrix:
  "handleCases (Matrix x) (Matrix y) cu nn nm mn (Some f) = f x y"
  by (subst handleCases.simps) simp

lemma plus_op_Number_Number: "plus_op (Number x) (Number y) = Inr (Number (x + y))"
  by (subst plus_op.simps) (simp add: handleCases_Number_Number valueWrap_def)

lemma multiply_Number_Number: "multiply (Number x) (Number y) = Inr (Number (x * y))"
  by (subst multiply.simps) (simp add: handleCases_Number_Number valueWrap_def)

lemma divide_op_Number_Number:
  "divide_op (Number x) (Number y) =
     (if y = 0 then Inl (Error ''Equation resolve: cannot divide by 0'')
      else Inr (Number (x / y)))"
  by (subst divide_op.simps) (simp add: handleCases_Number_Number valueWrap_def)

lemma plus_op_Number_Matrix:
  "plus_op (Number x) (Matrix y) = mapMatrix y (\<lambda>cell. Inr (x + cell))"
  by (subst plus_op.simps) (simp add: handleCases_Number_Matrix plus_op_Number_Number)

lemma plus_op_Unit:
  "isUnit a \<or> isUnit b \<Longrightarrow>
   plus_op a b =
     andThen (if \<not> isSameUnit (getUnit a) (getUnit b)
              then Inl (Error ''Equation resolve: cannot add different units'')
              else Inr (getUnit a)) (\<lambda>units.
     andThen (plus_op (getUnitless a) (getUnitless b)) (\<lambda>result.
     if isEmptyUnit units then Inr result else Inr (Unit units result)))"
  apply (subst plus_op.simps)
  apply (subst handleCases_Unit, assumption)
  apply (subst plus_op.simps [of "getUnitless a" "getUnitless b"])
  apply (rule refl)
  done

lemma multiply_Unit:
  "isUnit a \<or> isUnit b \<Longrightarrow>
   multiply a b =
     andThen (multiply (getUnitless a) (getUnitless b)) (\<lambda>result.
       if isEmptyUnit (mapUnits (getUnit a) (getUnit b) (\<lambda>unit1 unit2 key. unit1 + unit2))
       then Inr result
       else Inr (Unit (mapUnits (getUnit a) (getUnit b) (\<lambda>unit1 unit2 key. unit1 + unit2)) result))"
  apply (subst multiply.simps)
  apply (subst handleCases_Unit, assumption)
  apply (subst multiply.simps [of "getUnitless a" "getUnitless b"])
  apply simp
  done

lemma divide_op_Unit:
  "divide_op a (Unit u v) =
     andThen (handleCases (getUnitless a) v
          (\<lambda>a b. Inr (mapUnits a b (\<lambda>factor1 factor2 key. factor1 - factor2)))
          (Some (\<lambda>a b. Inr (valueWrap (a / b))))
          (Some (\<lambda>a b. mapMatrix b (\<lambda>cell. asResultTreeNumber (divide_op (Number a) (Number cell)))))
          (Some (\<lambda>a b. mapMatrix a (\<lambda>cell. asResultTreeNumber (divide_op (Number cell) (Number b)))))
          None) (\<lambda>result.
       if isEmptyUnit (mapUnits (getUnit a) u (\<lambda>factor1 factor2 key. factor1 - factor2))
       then Inr result
       else Inr (Unit (mapUnits (getUnit a) u (\<lambda>factor1 factor2 key. factor1 - factor2)) result))"
  apply (subst divide_op.simps)
  apply (subst handleCases_Unit)
   apply simp
  apply simp
  done

subsection \<open>Mapping over a matrix\<close>

lemma map_from_guarded:
  "map_from i (\<lambda>x k. if P x then Inl e else Inr (g x)) xs =
     (if \<exists>x\<in>set xs. P x then Inl e else Inr (map g xs))"
  by (induction xs arbitrary: i) auto

lemma array_map_guarded:
  "array_map (\<lambda>x k. if P x then Inl e else Inr (g x)) xs =
     (if \<exists>x\<in>set xs. P x then Inl e else Inr (map g xs))"
  by (simp add: array_map_def map_from_guarded)

lemma mapMatrix_guarded:
  "mapMatrix x (\<lambda>cell. if P cell then Inl e else Inr (g cell)) =
     (if \<exists>row\<in>set (mat_values x). \<exists>cell\<in>set row. P cell then Inl e
      else Inr (Matrix (x\<lparr>mat_values := map (map g) (mat_values x)\<rparr>)))"
  by (simp add: mapMatrix_def array_map_guarded)


lemma divide_op_Number_Matrix:
  "divide_op (Number x) (Matrix y) =
     mapMatrix y (\<lambda>cell. if cell = 0 then Inl (Error ''Equation resolve: cannot divide by 0'')
                          else Inr (x / cell))"
proof -
  have cell: "asResultTreeNumber (divide_op (Number x) (Number cell)) =
      (if cell = 0 then Inl (Error ''Equation resolve: cannot divide by 0'') else Inr (x / cell))"
    for cell
    by (simp add: divide_op_Number_Number)
  show ?thesis
    by (subst divide_op.simps) (simp add: handleCases_Number_Matrix cell)
qed

lemma divide_op_Matrix_Number:
  "divide_op (Matrix x) (Number y) =
     (if y = 0 then Inl (Error ''Equation resolve: cannot divide by 0'')
      else mapMatrix x (\<lambda>cell. Inr (cell / y)))"
proof -
  have cell: "y \<noteq> 0 \<Longrightarrow> asResultTreeNumber (divide_op (Number cell) (Number y)) = Inr (cell / y)"
    for cell
    by (simp add: divide_op_Number_Number)
  show ?thesis
    by (subst divide_op.simps) (simp add: handleCases_Matrix_Number cell)
qed

lemma divide_op_Number_Matrix_eval:
  "divide_op (Number x) (Matrix y) =
     (if \<exists>row\<in>set (mat_values y). \<exists>cell\<in>set row. cell = 0
      then Inl (Error ''Equation resolve: cannot divide by 0'')
      else Inr (Matrix (y\<lparr>mat_values := map (map (\<lambda>cell. x / cell)) (mat_values y)\<rparr>)))"
  by (simp only: divide_op_Number_Matrix mapMatrix_guarded)

section \<open>Properties of the unit algebra\<close>

lemma getProperty_own: "map_of u key = Some v \<Longrightarrow> getProperty u key = Own v"
  by (simp add: getProperty_def)

lemma getProperty_missing:
  "map_of u key = None \<Longrightarrow> key \<notin> set objectPrototypeKeys \<Longrightarrow> getProperty u key = Undefined"
  by (simp add: getProperty_def)

lemma getProperty_inherited:
  "map_of u key = None \<Longrightarrow> key \<in> set objectPrototypeKeys \<Longrightarrow> getProperty u key = Inherited key"
  by (simp add: getProperty_def)

lemma ordinaryKeys_member:
  "ordinaryKeys u \<Longrightarrow> key \<in> fst ` set u \<Longrightarrow> key \<notin> set objectPrototypeKeys"
  by (auto simp: ordinaryKeys_def)

lemma or_zero_getProperty:
  "key \<notin> set objectPrototypeKeys \<Longrightarrow> or_zero (getProperty u key) = exponentOf u key"
  by (simp add: getProperty_def exponentOf_def split: option.splits)

lemma exponentOf_own: "distinct (map fst u) \<Longrightarrow> (key, v) \<in> set u \<Longrightarrow> exponentOf u key = v"
  by (simp add: exponentOf_def)

lemma mapUnit_loop_split:
  "mapUnit_loop x (\<lambda>value key s. (g value key, h value key s)) result s =
     (foldl (\<lambda>r (key, value). keep_nonzero key (g value key) r) result x,
      foldl (\<lambda>s (key, value). h value key s) s x)"
  by (induction x arbitrary: result s) (auto simp: keep_nonzero_def)

lemma mapUnits_loop_split:
  "mapUnits_loop b a (\<lambda>x y key s. (g x y key, h x y key s)) result s =
     (foldl (\<lambda>r (key, value).
              if truthy (getProperty a key) then r else keep_nonzero key (g 0 value key) r) result b,
      foldl (\<lambda>s (key, value).
              if truthy (getProperty a key) then s else h 0 value key s) s b)"
  by (induction b arbitrary: result s) (auto simp: keep_nonzero_def)

lemma map_of_keep_nonzero:
  "map_of (keep_nonzero key v r) k =
     (if k = key \<and> v \<noteq> 0 then Some v else map_of r k)"
  by (simp add: keep_nonzero_def update_conv')

lemma distinct_keep_nonzero:
  "distinct (map fst r) \<Longrightarrow> distinct (map fst (keep_nonzero key v r))"
  by (simp add: keep_nonzero_def distinct_update)

lemma distinct_foldl_step:
  assumes "\<And>r p. distinct (map fst r) \<Longrightarrow> distinct (map fst (step r p))"
  shows "distinct (map fst r) \<Longrightarrow> distinct (map fst (foldl step r x))"
  using assms by (induction x arbitrary: r) auto

lemma map_of_mapUnit_fold:
  "distinct (map fst x) \<Longrightarrow>
   map_of (foldl (\<lambda>r (key, value). keep_nonzero key (g value key) r) result x) k =
     (case map_of x k of
        None \<Rightarrow> map_of result k
      | Some v \<Rightarrow> if g v k \<noteq> 0 then Some (g v k) else map_of result k)"
proof (induction x arbitrary: result)
  case Nil
  then show ?case by simp
next
  case (Cons p x)
  obtain key val where p: "p = (key, val)" by (cases p)
  from Cons.prems p have nk: "key \<notin> fst ` set x" and d: "distinct (map fst x)"
    by auto
  from nk have none: "map_of x key = None"
    by (simp add: map_of_eq_None_iff)
  show ?case
    using Cons.IH [OF d, of "keep_nonzero key (g val key) result"] none
    by (auto simp: p map_of_keep_nonzero split: option.splits)
qed

lemma map_of_mapUnits_fold:
  "distinct (map fst b) \<Longrightarrow>
   map_of (foldl (\<lambda>r (key, value).
              if truthy (getProperty a key) then r else keep_nonzero key (g 0 value key) r) result b) k =
     (case map_of b k of
        None \<Rightarrow> map_of result k
      | Some v \<Rightarrow>
          if \<not> truthy (getProperty a k) \<and> g 0 v k \<noteq> 0 then Some (g 0 v k) else map_of result k)"
proof (induction b arbitrary: result)
  case Nil
  then show ?case by simp
next
  case (Cons p b)
  obtain key val where p: "p = (key, val)" by (cases p)
  from Cons.prems p have nk: "key \<notin> fst ` set b" and d: "distinct (map fst b)"
    by auto
  from nk have none: "map_of b key = None"
    by (simp add: map_of_eq_None_iff)
  show ?case
    using Cons.IH [OF d] none
    by (auto simp: p map_of_keep_nonzero split: option.splits)
qed

lemma mapUnit_loop_pure:
  "mapUnit_loop x (\<lambda>value key s. (g value key, s)) result s =
     (foldl (\<lambda>r (key, value). keep_nonzero key (g value key) r) result x, s)"
  by (induction x arbitrary: result) (auto simp: keep_nonzero_def)

lemma mapUnits_loop_pure:
  "mapUnits_loop b a (\<lambda>x y key s. (g x y key, s)) result s =
     (foldl (\<lambda>r (key, value).
              if truthy (getProperty a key) then r else keep_nonzero key (g 0 value key) r) result b, s)"
  by (induction b arbitrary: result) (auto simp: keep_nonzero_def)

lemma mapUnit_fold:
  "mapUnit x g = foldl (\<lambda>r (key, value). keep_nonzero key (g value key) r) [] x"
  by (simp add: mapUnit_def mapUnit_st_def mapUnit_loop_pure)

lemma mapUnits_fold:
  "mapUnits a b g =
     foldl (\<lambda>r (key, value).
              if truthy (getProperty a key) then r else keep_nonzero key (g 0 value key) r)
       (mapUnit a (\<lambda>value key. g value (or_zero (getProperty b key)) key)) b"
  by (simp add: mapUnits_def mapUnits_st_def mapUnit_def mapUnit_st_def mapUnit_loop_pure
      mapUnits_loop_pure)

lemma distinct_mapUnit: "distinct (map fst (mapUnit x g))"
  unfolding mapUnit_fold
  by (rule distinct_foldl_step) (auto simp: distinct_keep_nonzero)

lemma distinct_mapUnits: "distinct (map fst (mapUnits a b g))"
  unfolding mapUnits_fold
  by (rule distinct_foldl_step) (auto simp: distinct_keep_nonzero distinct_mapUnit)

lemma map_of_mapUnit:
  "distinct (map fst x) \<Longrightarrow>
   map_of (mapUnit x g) k =
     (case map_of x k of None \<Rightarrow> None | Some v \<Rightarrow> if g v k \<noteq> 0 then Some (g v k) else None)"
  by (simp add: mapUnit_fold map_of_mapUnit_fold split: option.splits)

lemma map_of_mapUnits:
  assumes "distinct (map fst a)" "distinct (map fst b)" "ordinaryKeys a" "ordinaryKeys b"
  shows "map_of (mapUnits a b g) k =
     (if k \<in> fst ` set a \<union> fst ` set b
      then (if g (exponentOf a k) (exponentOf b k) k \<noteq> 0
            then Some (g (exponentOf a k) (exponentOf b k) k) else None)
      else None)"
proof -
  let ?first = "map_of (mapUnit a (\<lambda>value key. g value (or_zero (getProperty b key)) key)) k"
  have fold: "map_of (mapUnits a b g) k =
      (case map_of b k of
         None \<Rightarrow> ?first
       | Some v \<Rightarrow>
           if \<not> truthy (getProperty a k) \<and> g 0 v k \<noteq> 0 then Some (g 0 v k) else ?first)"
    by (simp add: mapUnits_fold map_of_mapUnits_fold [OF assms(2)])
  have first: "?first =
      (case map_of a k of
         None \<Rightarrow> None
       | Some v \<Rightarrow>
           if g v (or_zero (getProperty b k)) k \<noteq> 0
           then Some (g v (or_zero (getProperty b k)) k) else None)"
    by (simp add: map_of_mapUnit [OF assms(1)])
  show ?thesis
  proof (cases "map_of a k")
    case a: None
    then have ka: "k \<notin> fst ` set a"
      by (simp add: map_of_eq_None_iff)
    show ?thesis
    proof (cases "map_of b k")
      case None
      then have "k \<notin> fst ` set b"
        by (simp add: map_of_eq_None_iff)
      with a None ka show ?thesis
        by (simp add: fold first)
    next
      case (Some vb)
      then have kb: "k \<in> fst ` set b"
        by (metis map_of_eq_None_iff option.distinct(1))
      from ordinaryKeys_member [OF assms(4) kb] a
      have "getProperty a k = Undefined"
        by (simp add: getProperty_missing)
      with a Some ka kb show ?thesis
        by (simp add: fold first exponentOf_def)
    qed
  next
    case a: (Some va)
    then have ka: "k \<in> fst ` set a"
      by (metis map_of_eq_None_iff option.distinct(1))
    have pa: "getProperty a k = Own va"
      using a by (rule getProperty_own)
    have pb: "or_zero (getProperty b k) = exponentOf b k"
      using ordinaryKeys_member [OF assms(3) ka] by (rule or_zero_getProperty)
    show ?thesis
    proof (cases "map_of b k")
      case None
      with a ka pa pb show ?thesis
        by (simp add: fold first exponentOf_def)
    next
      case (Some vb)
      then have "exponentOf b k = vb"
        by (simp add: exponentOf_def)
      with a Some ka pa pb show ?thesis
        by (auto simp: fold first exponentOf_def)
    qed
  qed
qed

lemma set_eq_of_map_of_eq:
  assumes "distinct (map fst xs)" "distinct (map fst ys)" "map_of xs = map_of ys"
  shows "set xs = set ys"
proof -
  have "(k, v) \<in> set xs \<longleftrightarrow> (k, v) \<in> set ys" for k v
    using assms by (metis map_of_eq_Some_iff)
  then show ?thesis by auto
qed

subsection \<open>The calls of a logging mapper\<close>

lemma foldl_append_log:
  "foldl (\<lambda>s (key, v). if skip key then s else s @ [F key v]) s x =
     s @ map (\<lambda>(key, v). F key v) (filter (\<lambda>(key, v). \<not> skip key) x)"
  by (induction x arbitrary: s) auto

lemma mapUnits_st_logged:
  "mapUnits_st a b (logged f) [] =
     (mapUnits a b f,
      map (\<lambda>(key, v). (v, or_zero (getProperty b key), key)) a @
      map (\<lambda>(key, v). (0, v, key)) (filter (\<lambda>(key, v). \<not> truthy (getProperty a key)) b))"
proof -
  have first: "mapUnit_st a (\<lambda>v key. logged f v (or_zero (getProperty b key)) key) [] =
      (mapUnit a (\<lambda>v key. f v (or_zero (getProperty b key)) key),
       map (\<lambda>(key, v). (v, or_zero (getProperty b key), key)) a)"
    using mapUnit_loop_split [of a "\<lambda>v key. f v (or_zero (getProperty b key)) key"
        "\<lambda>v key s. s @ [(v, or_zero (getProperty b key), key)]" "[]" "[]"]
      foldl_append_log [of "\<lambda>_. False" "\<lambda>key v. (v, or_zero (getProperty b key), key)" "[]" a]
    by (simp add: mapUnit_st_def logged_def mapUnit_fold)
  have second: "mapUnits_loop b a (logged f) r s =
      (foldl (\<lambda>r (key, v).
              if truthy (getProperty a key) then r else keep_nonzero key (f 0 v key) r) r b,
       s @ map (\<lambda>(key, v). (0, v, key)) (filter (\<lambda>(key, v). \<not> truthy (getProperty a key)) b))" for r s
    using mapUnits_loop_split [of b a f "\<lambda>x y key s. s @ [(x, y, key)]" r s]
      foldl_append_log [of "\<lambda>key. truthy (getProperty a key)" "\<lambda>key v. (0, v, key)" s b]
    by (simp add: logged_def)
  show ?thesis
    by (simp add: mapUnits_st_def first second mapUnits_fold)
qed

lemma truthy_getProperty:
  assumes "unitMapInvariant a" "key \<notin> set objectPrototypeKeys"
  shows "truthy (getProperty a key) \<longleftrightarrow> key \<in> fst ` set a"
proof (cases "map_of a key")
  case None
  then have "key \<notin> fst ` set a"
    by (simp add: map_of_eq_None_iff)
  with None assms(2) show ?thesis
    by (simp add: getProperty_missing)
next
  case (Some v)
  with assms(1) have "(key, v) \<in> set a" "v \<noteq> 0"
    by (auto simp: unitMapInvariant_def dest: map_of_SomeD)
  with Some show ?thesis
    by (force simp: getProperty_own)
qed

lemma count_list_distinct:
  "distinct xs \<Longrightarrow> count_list xs k = (if k \<in> set xs then 1 else 0)"
  by (induction xs) auto

lemma keys_of_calls:
  assumes "unitMapInvariant a" "unitMapInvariant b" "ordinaryKeys b"
  defines "keys \<equiv> map fst a @ map fst (filter (\<lambda>(key, v). \<not> truthy (getProperty a key)) b)"
  shows "distinct keys" "set keys = fst ` set a \<union> fst ` set b"
proof -
  have skip: "filter (\<lambda>(key, v). \<not> truthy (getProperty a key)) b =
              filter (\<lambda>p. fst p \<notin> fst ` set a) b"
  proof (rule filter_cong [OF refl])
    fix p assume "p \<in> set b"
    then have "fst p \<notin> set objectPrototypeKeys"
      by (intro ordinaryKeys_member [OF assms(3)]) simp
    then show "(case p of (key, v) \<Rightarrow> \<not> truthy (getProperty a key)) = (fst p \<notin> fst ` set a)"
      by (simp add: case_prod_beta truthy_getProperty [OF assms(1)])
  qed
  have da: "distinct (map fst a)" and db: "distinct (map fst b)"
    using assms by (simp_all add: unitMapInvariant_def)
  show "distinct keys"
    unfolding keys_def skip using da db by (force simp: distinct_map_filter)
  show "set keys = fst ` set a \<union> fst ` set b"
    unfolding keys_def skip by force
qed

lemma mapUnits_calls:
  fixes f :: "'a::zero \<Rightarrow> 'a \<Rightarrow> string \<Rightarrow> 'a"
  assumes "unitMapInvariant a" "unitMapInvariant b" "ordinaryKeys a" "ordinaryKeys b"
  defines "calls \<equiv> snd (mapUnits_st a b (logged f) [])"
  shows "count_list (map (\<lambda>(x, y, key). key) calls) key =
           (if key \<in> fst ` set a \<union> fst ` set b then 1 else 0)"
    and "(x, y, key) \<in> set calls \<Longrightarrow> x = exponentOf a key \<and> y = exponentOf b key"
proof -
  let ?calls = "map (\<lambda>(key, v). (v, or_zero (getProperty b key), key)) a @
      map (\<lambda>(key, v). (0, v, key)) (filter (\<lambda>(key, v). \<not> truthy (getProperty a key)) b)"
  let ?keys = "map fst a @ map fst (filter (\<lambda>(key, v). \<not> truthy (getProperty a key)) b)"
  have calls: "calls = ?calls"
    by (simp add: calls_def mapUnits_st_logged)
  have da: "distinct (map fst a)" and db: "distinct (map fst b)"
    using assms by (simp_all add: unitMapInvariant_def)
  have keys: "map (\<lambda>(x, y, key). key) ?calls = ?keys"
    by (auto simp: case_prod_beta)
  show "count_list (map (\<lambda>(x, y, key). key) calls) key =
           (if key \<in> fst ` set a \<union> fst ` set b then 1 else 0)"
    unfolding calls keys
    by (simp only: count_list_distinct [OF keys_of_calls(1) [OF assms(1,2,4)]]
        keys_of_calls(2) [OF assms(1,2,4)])
  show "x = exponentOf a key \<and> y = exponentOf b key"
    if "(x, y, key) \<in> set calls"
  proof -
    from that consider
      (first) "(key, x) \<in> set a" "y = or_zero (getProperty b key)"
      | (second) "x = 0" "(key, y) \<in> set b" "\<not> truthy (getProperty a key)"
      unfolding calls by auto
    then show ?thesis
    proof cases
      case first
      from first(1) have "key \<in> fst ` set a"
        by force
      then have "or_zero (getProperty b key) = exponentOf b key"
        by (intro or_zero_getProperty ordinaryKeys_member [OF assms(3)])
      with first da show ?thesis
        by (simp add: exponentOf_own)
    next
      case second
      from second(2) have "key \<in> fst ` set b"
        by force
      then have "key \<notin> set objectPrototypeKeys"
        by (rule ordinaryKeys_member [OF assms(4)])
      with second(3) have "key \<notin> fst ` set a"
        by (simp add: truthy_getProperty [OF assms(1)])
      then have "exponentOf a key = 0"
        by (simp add: exponentOf_def map_of_eq_None_iff [THEN iffD2])
      with second db show ?thesis
        by (simp add: exponentOf_own)
    qed
  qed
qed

lemma mapUnits_entry:
  assumes "distinct (map fst a)" "distinct (map fst b)" "ordinaryKeys a" "ordinaryKeys b"
    and "(key, v) \<in> set (mapUnits a b f)"
  shows "v \<noteq> 0 \<and> v = f (exponentOf a key) (exponentOf b key) key"
proof -
  from assms(5) have "map_of (mapUnits a b f) key = Some v"
    using distinct_mapUnits [of a b f] by simp
  then show ?thesis
    by (auto simp: map_of_mapUnits [OF assms(1-4)] split: if_splits)
qed

subsection \<open>The entries of a mapped unit map\<close>




subsection \<open>Power on a unit\<close>



subsection \<open>Sums and products of particular shapes\<close>

lemma plus_op_Unit_Number_Unit_Number:
  "plus_op (Unit u (Number x)) (Unit v (Number y)) =
     (if \<not> isSameUnit u v then Inl (Error ''Equation resolve: cannot add different units'')
      else Inr (if u = [] then Number (x + y) else Unit u (Number (x + y))))"
  by (simp add: plus_op_Unit plus_op_Number_Number isEmptyUnit_def)

lemma multiply_Matrix_Matrix:
  "multiply (Matrix x) (Matrix y) =
     (if mat_n x = 1 \<and> mat_n y = 1 then scalarProduct x y else matrixProduct x y)"
  by (subst multiply.simps) (simp add: handleCases_Matrix_Matrix)

subsection \<open>Products of well-formed matrices\<close>

lemma reduce_from_index:
  "(\<And>current j. j < length xs \<Longrightarrow> f current (xs ! j) (i + j) = Inr (g current (i + j))) \<Longrightarrow>
   reduce_from i f current xs = Inr (foldl g current [i..<i + length xs])"
proof (induction xs arbitrary: i current)
  case Nil
  then show ?case by simp
next
  case (Cons x xs)
  have head: "f current x i = Inr (g current i)"
    using Cons.prems [of 0 current] by simp
  have tail: "reduce_from (Suc i) f c xs = Inr (foldl g c [Suc i..<Suc i + length xs])" for c
    using Cons.prems [of "Suc j" for j] by (intro Cons.IH) simp
  have "[i..<i + length (x # xs)] = i # [Suc i..<Suc i + length xs]"
    by (simp add: upt_conv_Cons del: upt_Suc)
  then show ?case
    by (simp add: head tail del: upt_Suc)
qed

lemma array_reduce_index:
  "(\<And>current j. j < length xs \<Longrightarrow> f current (xs ! j) j = Inr (g current j)) \<Longrightarrow>
   array_reduce f init xs = Inr (foldl g init [0..<length xs])"
  using reduce_from_index [of xs f 0 g init] by (simp add: array_reduce_def)

lemma map_from_index:
  "(\<And>j. j < length xs \<Longrightarrow> f (xs ! j) (i + j) = Inr (g (i + j))) \<Longrightarrow>
   map_from i f xs = Inr (map g [i..<i + length xs])"
proof (induction xs arbitrary: i)
  case Nil
  then show ?case by simp
next
  case (Cons x xs)
  have head: "f x i = Inr (g i)"
    using Cons.prems [of 0] by simp
  have tail: "map_from (Suc i) f xs = Inr (map g [Suc i..<Suc i + length xs])"
    using Cons.prems [of "Suc j" for j] by (intro Cons.IH) simp
  have "[i..<i + length (x # xs)] = i # [Suc i..<Suc i + length xs]"
    by (simp add: upt_conv_Cons del: upt_Suc)
  then show ?case
    by (simp add: head tail del: upt_Suc)
qed

lemma array_map_index:
  "(\<And>j. j < length xs \<Longrightarrow> f (xs ! j) j = Inr (g j)) \<Longrightarrow>
   array_map f xs = Inr (map g [0..<length xs])"
  using map_from_index [of xs f 0 g] by (simp add: array_map_def)

lemma wellFormed_row: "wellFormed x \<Longrightarrow> i < mat_m x \<Longrightarrow> length (mat_values x ! i) = mat_n x"
  by (simp add: wellFormed_def)

lemma scalarProduct_wellFormed:
  assumes "wellFormed a" "wellFormed b" "mat_n a = 1" "mat_n b = 1" "mat_m a = mat_m b"
  shows "scalarProduct a b =
           Inr (Number (inner_product (mat_m a) (\<lambda>k. cellAt a k 0) (\<lambda>k. cellAt b k 0)))"
proof -
  have la: "length (mat_values a) = mat_m a" and lb: "length (mat_values b) = mat_m a"
    using assms by (simp_all add: wellFormed_def)
  have "array_reduce
          (\<lambda>current row rowIdx.
             andThen (index row 0) (\<lambda>aCell.
             andThen (index (mat_values b) rowIdx) (\<lambda>bRow.
             andThen (index bRow 0) (\<lambda>bCell.
             Inr (current + aCell * bCell)))))
          0 (mat_values a) =
        Inr (foldl (\<lambda>current k. current + cellAt a k 0 * cellAt b k 0) 0 [0..<length (mat_values a)])"
  proof (rule array_reduce_index)
    fix current :: 'a and j
    assume j: "j < length (mat_values a)"
    with la have "mat_values a ! j \<noteq> []"
      using wellFormed_row [OF assms(1), of j] assms(3) by auto
    moreover from j la assms(5) have "mat_values b ! j \<noteq> []"
      using wellFormed_row [OF assms(2), of j] assms(4) by auto
    ultimately show "andThen (index (mat_values a ! j) 0) (\<lambda>aCell.
             andThen (index (mat_values b) j) (\<lambda>bRow.
             andThen (index bRow 0) (\<lambda>bCell.
             Inr (current + aCell * bCell)))) = Inr (current + cellAt a j 0 * cellAt b j 0)"
      using j la lb by (simp add: index_def cellAt_def)
  qed
  then show ?thesis
    using assms(5) la by (simp add: scalarProduct_def inner_product_def valueWrap_def)
qed

lemma matrixProduct_wellFormed:
  assumes "wellFormed a" "wellFormed b" "mat_n a = mat_m b"
  shows "matrixProduct a b =
           Inr (Matrix \<lparr>mat_m = mat_m a, mat_n = mat_n b,
                  mat_values =
                    map (\<lambda>i. map (\<lambda>j. inner_product (mat_n a) (\<lambda>k. cellAt a i k) (\<lambda>k. cellAt b k j))
                                [0..<mat_n b])
                      [0..<mat_m a]\<rparr>)"
proof -
  have la: "length (mat_values a) = mat_m a" and lb: "length (mat_values b) = mat_m b"
    and mb: "0 < mat_m b"
    using assms by (simp_all add: wellFormed_def)
  have b0: "index (mat_values b) 0 = Inr (mat_values b ! 0)"
    using lb mb by (simp add: index_def)
  have lb0: "length (mat_values b ! 0) = mat_n b"
    using wellFormed_row [OF assms(2) mb] .
  have inner: "array_reduce
          (\<lambda>current innerCell colIdx.
             andThen (index (mat_values b) colIdx) (\<lambda>bRow.
             andThen (index bRow bCol) (\<lambda>bCell.
             Inr (current + innerCell * bCell))))
          0 (mat_values a ! aRow) =
        Inr (inner_product (mat_n a) (\<lambda>k. cellAt a aRow k) (\<lambda>k. cellAt b k bCol))"
    if "aRow < mat_m a" "bCol < mat_n b" for aRow bCol
  proof -
    have len: "length (mat_values a ! aRow) = mat_n a"
      using wellFormed_row [OF assms(1) that(1)] .
    have "array_reduce
          (\<lambda>current innerCell colIdx.
             andThen (index (mat_values b) colIdx) (\<lambda>bRow.
             andThen (index bRow bCol) (\<lambda>bCell.
             Inr (current + innerCell * bCell))))
          0 (mat_values a ! aRow) =
        Inr (foldl (\<lambda>current k. current + cellAt a aRow k * cellAt b k bCol) 0
               [0..<length (mat_values a ! aRow)])"
    proof (rule array_reduce_index)
      fix current :: 'a and j
      assume "j < length (mat_values a ! aRow)"
      with len assms(3) have j: "j < mat_m b" by simp
      with wellFormed_row [OF assms(2) j] that(2) lb
      show "andThen (index (mat_values b) j) (\<lambda>bRow.
             andThen (index bRow bCol) (\<lambda>bCell.
             Inr (current + mat_values a ! aRow ! j * bCell))) =
            Inr (current + cellAt a aRow j * cellAt b j bCol)"
        by (simp add: index_def cellAt_def)
    qed
    then show ?thesis
      by (simp add: len inner_product_def)
  qed
  have row: "andThen (index (mat_values b) 0) (\<lambda>bRow0.
                array_map
                  (\<lambda>cell bCol.
                     andThen (index (mat_values a) aRow) (\<lambda>aRowCells.
                     array_reduce
                       (\<lambda>current innerCell colIdx.
                          andThen (index (mat_values b) colIdx) (\<lambda>bRow.
                          andThen (index bRow bCol) (\<lambda>bCell.
                          Inr (current + innerCell * bCell))))
                       0 aRowCells))
                  bRow0) =
             Inr (map (\<lambda>j. inner_product (mat_n a) (\<lambda>k. cellAt a aRow k) (\<lambda>k. cellAt b k j))
                    [0..<mat_n b])"
    if "aRow < mat_m a" for aRow
  proof -
    have "array_map
            (\<lambda>cell bCol.
               andThen (index (mat_values a) aRow) (\<lambda>aRowCells.
               array_reduce
                 (\<lambda>current innerCell colIdx.
                    andThen (index (mat_values b) colIdx) (\<lambda>bRow.
                    andThen (index bRow bCol) (\<lambda>bCell.
                    Inr (current + innerCell * bCell))))
                 0 aRowCells))
            (mat_values b ! 0) =
          Inr (map (\<lambda>j. inner_product (mat_n a) (\<lambda>k. cellAt a aRow k) (\<lambda>k. cellAt b k j))
                 [0..<length (mat_values b ! 0)])"
    proof (rule array_map_index)
      fix j assume "j < length (mat_values b ! 0)"
      with lb0 have "j < mat_n b" by simp
      from inner [OF that this] that la
      show "andThen (index (mat_values a) aRow) (\<lambda>aRowCells.
               array_reduce
                 (\<lambda>current innerCell colIdx.
                    andThen (index (mat_values b) colIdx) (\<lambda>bRow.
                    andThen (index bRow j) (\<lambda>bCell.
                    Inr (current + innerCell * bCell))))
                 0 aRowCells) =
            Inr (inner_product (mat_n a) (\<lambda>k. cellAt a aRow k) (\<lambda>k. cellAt b k j))"
        by (simp add: index_def)
    qed
    then show ?thesis
      by (simp add: b0 lb0)
  qed
  have "array_map
          (\<lambda>row aRow.
             andThen (index (mat_values b) 0) (\<lambda>bRow0.
                array_map
                  (\<lambda>cell bCol.
                     andThen (index (mat_values a) aRow) (\<lambda>aRowCells.
                     array_reduce
                       (\<lambda>current innerCell colIdx.
                          andThen (index (mat_values b) colIdx) (\<lambda>bRow.
                          andThen (index bRow bCol) (\<lambda>bCell.
                          Inr (current + innerCell * bCell))))
                       0 aRowCells))
                  bRow0))
          (mat_values a) =
        Inr (map (\<lambda>i. map (\<lambda>j. inner_product (mat_n a) (\<lambda>k. cellAt a i k) (\<lambda>k. cellAt b k j))
                        [0..<mat_n b])
               [0..<length (mat_values a)])"
    by (rule array_map_index) (simp add: row la)
  then show ?thesis
    using assms(3) by (simp add: matrixProduct_def la)
qed

lemma inner_product_sum:
  "inner_product k f g = (\<Sum>i<k. f i * g i :: 'a::semiring_0)"
proof -
  have "foldl (\<lambda>current i. current + f i * g i) c [0..<k] = c + (\<Sum>i<k. f i * g i)" for c
    by (induction k arbitrary: c) (simp_all add: add.assoc)
  then show ?thesis
    by (simp add: inner_product_def)
qed

subsection \<open>Scalars in either order\<close>

lemma isSameUnit_commute: "isSameUnit u v = isSameUnit v u"
  unfolding isSameUnit_def by metis

lemma isSameUnit_Nil: "isSameUnit u [] = (u = [])" "isSameUnit [] u = (u = [])"
  by (auto simp: isSameUnit_def)

lemma isSameUnit_set:
  assumes "isSameUnit u v" "distinct (map fst u)" "distinct (map fst v)"
  shows "set u = set v"
proof (rule set_eq_of_map_of_eq [OF assms(2,3)])
  from assms(1) have keys: "fst ` set u = fst ` set v"
    and same: "\<forall>key\<in>fst ` set u. map_of u key = map_of v key"
    unfolding isSameUnit_def set_map by blast+
  show "map_of u = map_of v"
  proof
    fix k
    show "map_of u k = map_of v k"
    proof (cases "k \<in> fst ` set u")
      case True
      with same show ?thesis by blast
    next
      case False
      with keys have "map_of u k = None" "map_of v k = None"
        by (simp_all add: map_of_eq_None_iff)
      then show ?thesis by simp
    qed
  qed
qed

lemma mapUnits_commute:
  assumes "\<And>x y k. g x y k = g y x k" "distinct (map fst u)" "distinct (map fst v)"
    and "ordinaryKeys u" "ordinaryKeys v"
  shows "set (mapUnits u v g) = set (mapUnits v u g)"
proof (rule set_eq_of_map_of_eq [OF distinct_mapUnits distinct_mapUnits])
  show "map_of (mapUnits u v g) = map_of (mapUnits v u g)"
    by (rule ext)
      (simp add: map_of_mapUnits [OF assms(2,3,4,5)] map_of_mapUnits [OF assms(3,2,5,4)]
        assms(1) [of "exponentOf u k" "exponentOf v k" for k] Un_commute)
qed

lemma plus_op_Unit_Number_Number:
  "plus_op (Unit u (Number x)) (Number y) =
     (if u \<noteq> [] then Inl (Error ''Equation resolve: cannot add different units'')
      else Inr (Number (x + y)))"
  by (simp add: plus_op_Unit plus_op_Number_Number isEmptyUnit_def isSameUnit_Nil)

lemma plus_op_Number_Unit_Number:
  "plus_op (Number x) (Unit v (Number y)) =
     (if v \<noteq> [] then Inl (Error ''Equation resolve: cannot add different units'')
      else Inr (Number (x + y)))"
  by (simp add: plus_op_Unit plus_op_Number_Number isEmptyUnit_def isSameUnit_Nil)

lemma multiply_scalars:
  "multiply (Unit u (Number x)) (Unit v (Number y)) =
     Inr (wrapUnit (mapUnits u v (\<lambda>unit1 unit2 key. unit1 + unit2)) (Number (x * y)))"
  "multiply (Unit u (Number x)) (Number y) =
     Inr (wrapUnit (mapUnits u [] (\<lambda>unit1 unit2 key. unit1 + unit2)) (Number (x * y)))"
  "multiply (Number x) (Unit v (Number y)) =
     Inr (wrapUnit (mapUnits [] v (\<lambda>unit1 unit2 key. unit1 + unit2)) (Number (x * y)))"
  by (simp_all add: multiply_Unit multiply_Number_Number wrapUnit_def)

lemma sameTree_wrapUnit:
  "set u = set v \<Longrightarrow> sameTree (wrapUnit u (Number x)) (wrapUnit v (Number x))"
  by (auto simp: wrapUnit_def isEmptyUnit_def)

lemma isScalar_cases:
  assumes "isScalar a"
  obtains (bare) x where "a = Number x"
  | (unit) u x where "a = Unit u (Number x)" "distinct (map fst u)"
  using assms by (cases a rule: isScalar.cases) auto

lemma plus_op_scalars_commute:
  fixes a b :: "'a::plus result_tree"
  assumes comm: "\<And>x y :: 'a. x + y = y + x" and "isScalar a" and b_scalar: "isScalar b"
  shows "sameResult (plus_op a b) (plus_op b a)"
  using assms(2)
proof (cases rule: isScalar_cases)
  case (bare x)
  show ?thesis
    using b_scalar
  proof (cases rule: isScalar_cases)
    case b: (bare y)
    with bare show ?thesis
      by (simp add: plus_op_Number_Number comm [of x y])
  next
    case b: (unit v y)
    with bare show ?thesis
      by (simp add: plus_op_Unit_Number_Number plus_op_Number_Unit_Number comm [of x y])
  qed
next
  case (unit u x)
  show ?thesis
    using b_scalar
  proof (cases rule: isScalar_cases)
    case b: (bare y)
    with unit show ?thesis
      by (simp add: plus_op_Unit_Number_Number plus_op_Number_Unit_Number comm [of x y])
  next
    case b: (unit v y)
    show ?thesis
    proof (cases "isSameUnit u v")
      case True
      then have rev: "isSameUnit v u"
        by (simp add: isSameUnit_commute)
      from isSameUnit_set [OF True unit(2) b(2)] have uv: "set u = set v" .
      then have "u = [] \<longleftrightarrow> v = []"
        by auto
      with True rev uv show ?thesis
        by (auto simp: unit(1) b(1) plus_op_Unit_Number_Unit_Number comm [of x y])
    next
      case False
      then have "\<not> isSameUnit v u"
        by (simp add: isSameUnit_commute)
      with False show ?thesis
        by (simp add: unit(1) b(1) plus_op_Unit_Number_Unit_Number)
    qed
  qed
qed

lemma ordinaryKeys_Nil [simp]: "ordinaryKeys []"
  by (simp add: ordinaryKeys_def)

lemma multiply_scalars_commute:
  fixes a b :: "'a::{zero,plus,times} result_tree"
  assumes comm: "\<And>x y :: 'a. x + y = y + x" and mcomm: "\<And>x y :: 'a. x * y = y * x"
    and "isScalar a" and b_scalar: "isScalar b"
    and a_keys: "ordinaryKeys (getUnit a)" and b_keys: "ordinaryKeys (getUnit b)"
  shows "sameResult (multiply a b) (multiply b a)"
proof -
  have units: "set (mapUnits u v (\<lambda>unit1 unit2 key. unit1 + unit2)) =
               set (mapUnits v u (\<lambda>unit1 unit2 key. unit1 + unit2))"
    if "distinct (map fst u)" "distinct (map fst v)" "ordinaryKeys u" "ordinaryKeys v"
    for u v :: "'a unit_lookup"
    using that by (intro mapUnits_commute) (simp_all add: comm)
  from assms(3) show ?thesis
  proof (cases rule: isScalar_cases)
    case (bare x)
    show ?thesis
      using b_scalar
    proof (cases rule: isScalar_cases)
      case b: (bare y)
      with bare show ?thesis
        by (simp add: multiply_Number_Number mcomm [of x y])
    next
      case b: (unit v y)
      with bare units [of "[]" v] b_keys show ?thesis
        by (simp add: multiply_scalars mcomm [of x y] sameTree_wrapUnit)
    qed
  next
    case (unit u x)
    show ?thesis
      using b_scalar
    proof (cases rule: isScalar_cases)
      case b: (bare y)
      with unit units [of u "[]"] a_keys show ?thesis
        by (simp add: multiply_scalars mcomm [of x y] sameTree_wrapUnit)
    next
      case b: (unit v y)
      with unit units [of u v] a_keys b_keys show ?thesis
        by (simp add: multiply_scalars mcomm [of x y] sameTree_wrapUnit)
    qed
  qed
qed

subsection \<open>Results with one unit layer\<close>

lemma handleCases_dispatch:
  "\<not> isUnit a \<Longrightarrow> \<not> isUnit b \<Longrightarrow>
   handleCases a b cu nn nm mn mm = handleCases a b cu' nn nm mn mm"
  by (subst (1 2) handleCases.simps) simp

lemma handleCases_dispatch_unitless:
  assumes "\<not> isUnit a" "\<not> isUnit b" "unitlessResults nn nm mn mm"
    and "handleCases a b cu nn nm mn mm = Inr r"
  shows "\<not> isUnit r"
  using assms(4) assms(1,2) assms(3) [unfolded unitlessResults_def]
  by (subst (asm) handleCases.simps)
    (auto split: result_tree.splits option.splits)

lemma flat_getUnitless: "flat a \<Longrightarrow> \<not> isUnit (getUnitless a)"
  by (cases a) simp_all

lemma andThen_eq_Inr: "andThen x f = Inr r \<longleftrightarrow> (\<exists>v. x = Inr v \<and> f v = Inr r)"
  by (cases x) simp_all

lemma handleCases_Unit_wrap:
  assumes "isUnit a \<or> isUnit b" "flat a" "flat b"
  shows "handleCases a b cu nn nm mn mm =
     andThen (cu (getUnit a) (getUnit b)) (\<lambda>units.
     andThen (handleCases (getUnitless a) (getUnitless b) cu' nn nm mn mm) (\<lambda>result.
     Inr (wrapUnit units result)))"
proof -
  have "handleCases (getUnitless a) (getUnitless b) cu nn nm mn mm =
        handleCases (getUnitless a) (getUnitless b) cu' nn nm mn mm"
    using assms(2,3) by (intro handleCases_dispatch flat_getUnitless)
  then show ?thesis
    by (simp add: handleCases_Unit [OF assms(1)] wrapUnit_def if_distrib [of Inr])
qed

lemma handleCases_flat:
  assumes "flat a" "flat b" "unitlessResults nn nm mn mm"
    and "handleCases a b cu nn nm mn mm = Inr r"
  shows "flat r"
proof (cases "isUnit a \<or> isUnit b")
  case True
  from assms(4) [unfolded handleCases_Unit_wrap [OF True assms(1,2), of cu nn nm mn mm cu]]
  obtain units result where
    inner: "handleCases (getUnitless a) (getUnitless b) cu nn nm mn mm = Inr result"
    and r: "r = wrapUnit units result"
    by (auto simp: andThen_eq_Inr)
  from assms(1,2) have "\<not> isUnit result"
    by (intro handleCases_dispatch_unitless [OF _ _ assms(3) inner] flat_getUnitless)
  then show ?thesis
    by (cases result) (simp_all add: r wrapUnit_def)
next
  case False
  with assms(3,4) have "\<not> isUnit r"
    by (intro handleCases_dispatch_unitless [of a b nn nm mn mm cu r]) simp_all
  then show ?thesis
    by (cases r) simp_all
qed

lemma isUnit_negate: "isUnit (negate v) = isUnit v"
  by (cases v) simp_all

lemma flat_negate: "flat (negate b) = flat b"
  by (cases b) (simp_all add: isUnit_negate)

lemma unitlessResultsI:
  assumes "\<And>f x y r. nn = Some f \<Longrightarrow> f x y = Inr r \<Longrightarrow> \<not> isUnit r"
    and "\<And>f x y r. nm = Some f \<Longrightarrow> f x y = Inr r \<Longrightarrow> \<not> isUnit r"
    and "\<And>f x y r. mn = Some f \<Longrightarrow> f x y = Inr r \<Longrightarrow> \<not> isUnit r"
    and "\<And>f x y r. mm = Some f \<Longrightarrow> f x y = Inr r \<Longrightarrow> \<not> isUnit r"
  shows "unitlessResults nn nm mn mm"
  unfolding unitlessResults_def using assms by blast

lemma mapMatrix_unitless: "mapMatrix x f = Inr r \<Longrightarrow> \<not> isUnit r"
  by (auto simp: mapMatrix_def andThen_eq_Inr)

lemma scalarProduct_unitless: "scalarProduct x y = Inr r \<Longrightarrow> \<not> isUnit r"
  by (auto simp: scalarProduct_def andThen_eq_Inr valueWrap_def split: if_splits)

lemma matrixProduct_unitless: "matrixProduct x y = Inr r \<Longrightarrow> \<not> isUnit r"
  unfolding matrixProduct_def
  by (auto simp: andThen_eq_Inr split: if_splits)


lemma plus_op_flat:
  assumes "flat a" "flat b" "plus_op a b = Inr r"
  shows "flat r"
  using assms(3)
  by (subst (asm) plus_op.simps, elim handleCases_flat [OF assms(1,2), rotated],
      intro unitlessResultsI)
    (auto simp: valueWrap_def andThen_eq_Inr dest: mapMatrix_unitless split: if_splits)

lemma multiply_flat:
  assumes "flat a" "flat b" "multiply a b = Inr r"
  shows "flat r"
  using assms(3)
  by (subst (asm) multiply.simps, elim handleCases_flat [OF assms(1,2), rotated],
      intro unitlessResultsI)
    (auto simp: valueWrap_def
      dest: mapMatrix_unitless scalarProduct_unitless matrixProduct_unitless split: if_splits)

lemma divide_op_flat:
  assumes "flat a" "flat b" "divide_op a b = Inr r"
  shows "flat r"
proof -
  from assms(3) have "\<not> isNumberZero b"
    by (subst (asm) divide_op.simps) (simp split: if_splits)
  with assms(3) show ?thesis
    by (subst (asm) divide_op.simps, simp only: if_False,
        elim handleCases_flat [OF assms(1,2), rotated], intro unitlessResultsI)
      (auto simp: valueWrap_def dest: mapMatrix_unitless)
qed

lemma power_op_flat:
  assumes "flat a" "flat b" "power_op Math_pow a b = Inr r"
  shows "flat r"
proof -
  from assms(3) obtain e where b: "b = Number e"
    by (cases b) (simp_all add: power_op_def)
  from assms(3) show ?thesis
    unfolding b power_op_def isUnit.simps if_False result_tree.case
    by (elim handleCases_flat [OF assms(1), rotated 2], simp, intro unitlessResultsI)
      (auto simp: valueWrap_def dest: mapMatrix_unitless)
qed

lemma minus_op_flat:
  assumes "flat a" "flat b" "minus_op a b = Inr r"
  shows "flat r"
  using plus_op_flat [of a "negate b" r] assms by (simp add: minus_op_def flat_negate)

lemma multiplyImplied_flat:
  assumes "flat a" "flat b" "multiplyImplied a b = Inr r"
  shows "flat r"
  using multiply_flat [of a b r] assms by (simp add: multiplyImplied_def split: if_splits)

section \<open>Division\<close>

text \<open>
  A bare zero divisor raises, whatever the dividend and its units.
\<close>

lemma divide_op_bare_zero:
  "divide_op a (Number 0) = Inl (Error ''Equation resolve: cannot divide by 0'')"
  by (subst divide_op.simps) simp

text \<open>
  C3 (division by a scalar zero raises, with or without units on the divisor). The test
  at the head of \<^verbatim>\<open>divide\<close> looks at the tag of the divisor only: a zero under a unit
  annotation passes it, and the case handler then calls the number-number combinator on
  the payloads, which has no test. For every number \<open>x\<close> and every unit map \<open>u\<close>,
  dividing \<open>x\<close> by the zero in \<open>u\<close> returns the quotient \<open>x / 0\<close> in the inverted unit
  and raises nothing, whatever the arithmetic makes of \<open>x / 0\<close> (in JavaScript it is
  \<^verbatim>\<open>Infinity\<close>, \<^verbatim>\<open>-Infinity\<close> or \<^verbatim>\<open>NaN\<close>). With real numbers, \<open>5 / 0[m]\<close> is the
  quotient \<open>5 / 0\<close> in \<open>m^-1\<close>.
\<close>

theorem divide_op_unit_wrapped_zero_returns:
  "divide_op (Number x) (Unit u (Number 0)) =
     Inr (wrapUnit (mapUnits [] u (\<lambda>factor1 factor2 key. factor1 - factor2)) (Number (x / 0))) \<and>
   divide_op (Number (5::real)) (Unit [(''m'', 1)] (Number 0)) =
     Inr (Unit [(''m'', - 1)] (Number (5 / 0)))"
  by (simp add: divide_op_Unit handleCases_Number_Number valueWrap_def isEmptyUnit_def
      wrapUnit_def mapUnits_def mapUnits_st_def mapUnit_st_def getProperty_def
      objectPrototypeKeys_def)

text \<open>
  C10 (a number divided by a matrix with a zero cell raises). The number-matrix combinator
  of \<^verbatim>\<open>divide\<close> maps the recursive call \<^verbatim>\<open>divide(a, cell)\<close> over the matrix, and that
  call starts with the zero test on the cell: a cell that is exactly \<open>0\<close> makes the whole
  division fail with "cannot divide by 0", whatever the dividend and the other cells.
\<close>

theorem divide_op_Number_by_Matrix_with_zero_cell:
  "\<exists>row\<in>set (mat_values y). \<exists>cell\<in>set row. cell = 0 \<Longrightarrow>
   divide_op (Number x) (Matrix y) = Inl (Error ''Equation resolve: cannot divide by 0'')"
  by (simp only: divide_op_Number_Matrix_eval if_True)

theorem divide_op_Number_by_Matrix_with_zero_cell_witness:
  "(\<exists>row\<in>set (mat_values \<lparr>mat_m = 1, mat_n = 2, mat_values = [[2, 0::real]]\<rparr>).
      \<exists>cell\<in>set row. cell = 0) \<and>
   divide_op (Number 5) (Matrix \<lparr>mat_m = 1, mat_n = 2, mat_values = [[2, 0::real]]\<rparr>) =
     Inl (Error ''Equation resolve: cannot divide by 0'')"
  using divide_op_Number_by_Matrix_with_zero_cell
    [of "\<lparr>mat_m = 1, mat_n = 2, mat_values = [[2, 0::real]]\<rparr>" 5]
  by simp

text \<open>
  C4 (number divided by matrix), as the claim states it: each cell of the matrix divided
  by the number. The code keeps the operands in their order, \<^verbatim>\<open>divide(a, cell)\<close> with
  \<^verbatim>\<open>a\<close> the number: \<open>6 / [[2]]\<close> is \<open>[[3]]\<close>, not \<open>[[2 / 6]]\<close>.
\<close>

theorem divide_op_Number_Matrix_not_cell_by_number:
  "divide_op (Number (6::real)) (Matrix \<lparr>mat_m = 1, mat_n = 1, mat_values = [[2]]\<rparr>) =
     Inr (Matrix \<lparr>mat_m = 1, mat_n = 1, mat_values = [[3]]\<rparr>) \<and>
   divide_op (Number (6::real)) (Matrix \<lparr>mat_m = 1, mat_n = 1, mat_values = [[2]]\<rparr>) \<noteq>
     Inr (Matrix \<lparr>mat_m = 1, mat_n = 1, mat_values = [[2 / 6]]\<rparr>)"
  by (simp add: divide_op_Number_Matrix_eval)

text \<open>
  C4, amended: for a number \<open>x\<close> and a matrix with no cell equal to \<open>0\<close>, the quotient is
  the matrix with the same \<open>m\<close>, \<open>n\<close> and grid shape whose cells are \<open>x / cell\<close>, the
  number divided by each cell.
\<close>

theorem divide_op_Number_Matrix_number_by_cell:
  "\<forall>row\<in>set (mat_values y). \<forall>cell\<in>set row. cell \<noteq> 0 \<Longrightarrow>
   divide_op (Number x) (Matrix y) =
     Inr (Matrix (y\<lparr>mat_values := map (map (\<lambda>cell. x / cell)) (mat_values y)\<rparr>))"
  by (simp add: divide_op_Number_Matrix_eval)

theorem divide_op_Number_Matrix_number_by_cell_witness:
  "0 \<notin> set (concat (mat_values \<lparr>mat_m = 2, mat_n = 2, mat_values = [[1, 2], [3, 4::real]]\<rparr>)) \<and>
   divide_op (Number 12) (Matrix \<lparr>mat_m = 2, mat_n = 2, mat_values = [[1, 2], [3, 4::real]]\<rparr>) =
     Inr (Matrix \<lparr>mat_m = 2, mat_n = 2, mat_values = [[12, 6], [4, 3]]\<rparr>)"
  using divide_op_Number_Matrix_number_by_cell
    [of "\<lparr>mat_m = 2, mat_n = 2, mat_values = [[1, 2], [3, 4::real]]\<rparr>" 12]
  by simp

section \<open>Unit combination\<close>

text \<open>
  Let \<open>a\<close> and \<open>b\<close> be unit maps with distinct keys and no zero exponent, none of whose
  keys is the name of a member of \<^verbatim>\<open>Object.prototype\<close>, and run \<^verbatim>\<open>mapUnits\<close> with a
  mapper that logs its calls. The unit map it returns is the one the plain mapper gives;
  the log has exactly one call for every key of \<open>a\<close> or \<open>b\<close> and none for any other
  key, each call with the exponents of that key in \<open>a\<close> and in \<open>b\<close> (\<open>0\<close> where the
  key is missing); no entry of the result is \<open>0\<close>, and a key whose mapped value is \<open>0\<close>
  is not in the result.
\<close>

lemma mapUnits_ordinary_keys_each_once:
  fixes f :: "'a::zero \<Rightarrow> 'a \<Rightarrow> string \<Rightarrow> 'a"
  assumes "unitMapInvariant a" "unitMapInvariant b" "ordinaryKeys a" "ordinaryKeys b"
  shows "fst (mapUnits_st a b (logged f) []) = mapUnits a b f \<and>
         (\<forall>key. count_list (map (\<lambda>(x, y, key). key) (snd (mapUnits_st a b (logged f) []))) key =
                  (if key \<in> fst ` set a \<union> fst ` set b then 1 else 0)) \<and>
         (\<forall>(x, y, key)\<in>set (snd (mapUnits_st a b (logged f) [])).
             x = exponentOf a key \<and> y = exponentOf b key) \<and>
         (\<forall>(key, v)\<in>set (mapUnits a b f). v \<noteq> 0) \<and>
         (\<forall>key. f (exponentOf a key) (exponentOf b key) key = 0 \<longrightarrow>
                 key \<notin> fst ` set (mapUnits a b f))"
proof (intro conjI)
  have da: "distinct (map fst a)" and db: "distinct (map fst b)"
    using assms by (simp_all add: unitMapInvariant_def)
  show "fst (mapUnits_st a b (logged f) []) = mapUnits a b f"
    by (simp add: mapUnits_st_logged)
  show "\<forall>key. count_list (map (\<lambda>(x, y, key). key) (snd (mapUnits_st a b (logged f) []))) key =
                  (if key \<in> fst ` set a \<union> fst ` set b then 1 else 0)"
    using mapUnits_calls(1) [OF assms] by blast
  show "\<forall>(x, y, key)\<in>set (snd (mapUnits_st a b (logged f) [])).
             x = exponentOf a key \<and> y = exponentOf b key"
    using mapUnits_calls(2) [OF assms] by blast
  show "\<forall>(key, v)\<in>set (mapUnits a b f). v \<noteq> 0"
    using mapUnits_entry [OF da db assms(3,4)] by blast
  show "\<forall>key. f (exponentOf a key) (exponentOf b key) key = 0 \<longrightarrow>
                 key \<notin> fst ` set (mapUnits a b f)"
    using mapUnits_entry [OF da db assms(3,4)] by force
qed

text \<open>
  \<open>m s^-2\<close> combined with \<open>s^2 kg\<close> by addition of the exponents: three calls, and the
  cancelled \<open>s\<close> is not in the result.
\<close>

lemma mapUnits_ordinary_keys_example:
  "unitMapInvariant [(''m'', 1::int), (''s'', - 2)] \<and>
   unitMapInvariant [(''s'', 2::int), (''kg'', 1)] \<and>
   ordinaryKeys [(''m'', 1::int), (''s'', - 2)] \<and>
   ordinaryKeys [(''s'', 2::int), (''kg'', 1)] \<and>
   mapUnits_st [(''m'', 1::int), (''s'', - 2)] [(''s'', 2), (''kg'', 1)]
       (logged (\<lambda>x y key. x + y)) [] =
     ([(''m'', 1), (''kg'', 1)], [(1, 0, ''m''), (- 2, 2, ''s''), (0, 1, ''kg'')]) \<and>
   mapUnits [(''m'', 1::int), (''s'', - 2)] [(''s'', 2), (''kg'', 1)] (\<lambda>x y key. x + y) =
     [(''m'', 1), (''kg'', 1)] \<and>
   (\<forall>key. count_list [''m'', ''s'', ''kg''] key =
           (if key \<in> {''m'', ''s'', ''kg''} then 1 else 0))"
proof -
  let ?a = "[(''m'', 1::int), (''s'', - 2)]" and ?b = "[(''s'', 2::int), (''kg'', 1)]"
  have a: "unitMapInvariant ?a" and b: "unitMapInvariant ?b"
    by (simp_all add: unitMapInvariant_def)
  have ka: "ordinaryKeys ?a" and kb: "ordinaryKeys ?b"
    by (simp_all add: ordinaryKeys_def objectPrototypeKeys_def)
  have run: "mapUnits_st ?a ?b (logged (\<lambda>x y key. x + y)) [] =
      ([(''m'', 1), (''kg'', 1)], [(1, 0, ''m''), (- 2, 2, ''s''), (0, 1, ''kg'')])"
    by (simp add: mapUnits_st_def mapUnit_st_def logged_def getProperty_def
        objectPrototypeKeys_def)
  from mapUnits_ordinary_keys_each_once [OF a b ka kb, of "\<lambda>x y key. x + y"] a b ka kb run
  show ?thesis
    by (simp add: insert_commute)
qed

text \<open>
  C9 (\<^verbatim>\<open>mapUnits\<close> visits every key once and prunes zero exponents). The second loop of
  \<^verbatim>\<open>mapUnits\<close> skips a key of \<open>b\<close> when \<^verbatim>\<open>a[key]\<close> is truthy, and \<^verbatim>\<open>a[key]\<close> is read
  through the prototype chain: for a key of \<open>b\<close> that \<open>a\<close> does not have but
  \<^verbatim>\<open>Object.prototype\<close> does, it is the inherited member, which is truthy. Such a key is
  never handed to the mapper. For every exponent \<open>e\<close> and every mapper \<open>f\<close>, combining
  the empty unit map with the unit map \<^verbatim>\<open>{constructor: e}\<close> makes no call at all and
  returns the empty unit map; combining \<open>m\<close> with \<^verbatim>\<open>{constructor: 1}\<close> by addition of
  the exponents makes the one call for \<open>m\<close> and returns \<open>m\<close>. In the other order the
  key is visited, but the mapper's second argument \<^verbatim>\<open>b[key] || 0\<close> is the inherited
  member where the exponent \<open>0\<close> was meant.
\<close>

theorem mapUnits_skips_key_of_Object_prototype:
  "mapUnits_st [] [(''constructor'', e)] (logged f) [] = ([], []) \<and>
   mapUnits [] [(''constructor'', e)] f = [] \<and>
   mapUnits_st [(''m'', 1)] [(''constructor'', 1::int)] (logged (\<lambda>x y key. x + y)) [] =
     ([(''m'', 1)], [(1, 0, ''m'')]) \<and>
   mapUnits_st [(''constructor'', e)] [] (logged f) [] =
     (keep_nonzero ''constructor'' (f e (inheritedMember ''constructor'') ''constructor'') [],
      [(e, inheritedMember ''constructor'', ''constructor'')])"
  by (simp add: mapUnits_def mapUnits_st_def mapUnit_st_def logged_def keep_nonzero_def
      getProperty_def objectPrototypeKeys_def)

section \<open>Power\<close>



section \<open>Subtraction\<close>

text \<open>
  C2 (subtracting equal units gives a bare number), as the claim states it. \<^verbatim>\<open>minus\<close>
  is \<^verbatim>\<open>plus\<close> on the negated right operand, and the unit rule of \<^verbatim>\<open>plus\<close> returns the
  unit map of the left operand when the two maps are the same: no exponent is subtracted
  and nothing cancels. \<open>3[m] - 3[m]\<close> is \<open>0[m]\<close>, the number \<open>0\<close> inside the unit
  \<open>m\<close>, not the bare number \<open>0\<close>.
\<close>

theorem minus_same_unit_not_bare:
  "minus_op (Unit [(''m'', 1)] (Number (3::real))) (Unit [(''m'', 1)] (Number 3)) =
     Inr (Unit [(''m'', 1)] (Number 0)) \<and>
   minus_op (Unit [(''m'', 1)] (Number (3::real))) (Unit [(''m'', 1)] (Number 3)) \<noteq>
     Inr (Number 0)"
  by (simp add: minus_op_def plus_op_Unit_Number_Unit_Number isSameUnit_def)

text \<open>
  C2, amended: subtracting a number with a unit map from a number with the same unit map
  gives the difference of the two numbers inside the unit map of the left operand; the
  result is bare only when that unit map has no entry.
\<close>

theorem minus_same_unit_keeps_unit:
  "isSameUnit u v \<Longrightarrow>
   minus_op (Unit u (Number x)) (Unit v (Number y)) =
     Inr (if u = [] then Number (x + - y) else Unit u (Number (x + - y)))"
  by (simp add: minus_op_def plus_op_Unit_Number_Unit_Number)

theorem minus_same_unit_keeps_unit_witness:
  "isSameUnit [(''m'', 1::real)] [(''m'', 1)] \<and>
   minus_op (Unit [(''m'', 1)] (Number (3::real))) (Unit [(''m'', 1)] (Number 3)) =
     Inr (Unit [(''m'', 1)] (Number 0))"
  using minus_same_unit_keeps_unit [of "[(''m'', 1::real)]" "[(''m'', 1)]" 3 3]
  by (simp add: isSameUnit_def)

section \<open>Implied multiplication\<close>

text \<open>
  On two bare column vectors the implied multiplication raises; on every pair that is not
  two bare column vectors it is the multiplication.
\<close>

lemma multiplyImplied_bare_columns:
  "mat_n x = 1 \<Longrightarrow> mat_n y = 1 \<Longrightarrow>
   multiplyImplied (Matrix x) (Matrix y) =
     Inl (Error ''Equation resolve: cannot use implied multiplication for scalar product'')"
  by (simp add: multiplyImplied_def)

lemma multiplyImplied_otherwise:
  "\<not> (isColumn a \<and> isColumn b) \<Longrightarrow> multiplyImplied a b = multiply a b"
  unfolding multiplyImplied_def by (rule if_not_P)

text \<open>
  C5 (implied multiplication of two column vectors raises, unit-wrapped ones included).
  The test at the head of \<^verbatim>\<open>multiplyImplied\<close> reads \<^verbatim>\<open>a.type === 'matrix'\<close> and
  \<^verbatim>\<open>b.type === 'matrix'\<close>: an operand under a unit annotation has the tag \<^verbatim>\<open>'unit'\<close>
  and passes it, so that on a unit-wrapped operand the implied multiplication is the
  multiplication, which computes the scalar product of two column vectors. For the
  columns \<open>(1, 2, 3)\<close> in \<open>m\<close> and \<open>(4, 5, 6)\<close> in \<open>s\<close> the operator returns \<open>32\<close> in
  \<open>m s\<close> and raises nothing.
\<close>

theorem multiplyImplied_unit_wrapped_columns:
  "multiplyImplied (Unit u p) b = multiply (Unit u p) b \<and>
   multiplyImplied a (Unit v q) = multiply a (Unit v q) \<and>
   multiplyImplied
     (Unit [(''m'', 1)] (Matrix \<lparr>mat_m = 3, mat_n = 1, mat_values = [[1], [2], [3::real]]\<rparr>))
     (Unit [(''s'', 1)] (Matrix \<lparr>mat_m = 3, mat_n = 1, mat_values = [[4], [5], [6]]\<rparr>)) =
   Inr (Unit [(''m'', 1), (''s'', 1)] (Number 32))"
  by (simp add: multiplyImplied_def multiply_Unit multiply_Matrix_Matrix scalarProduct_def
      array_reduce_def index_def valueWrap_def isEmptyUnit_def
      mapUnits_def mapUnits_st_def mapUnit_st_def getProperty_def objectPrototypeKeys_def)

section \<open>Multiplication of matrices\<close>

text \<open>
  C6 (the product of two unitless matrices). For matrices that satisfy the invariant of
  the data model: when both have one column, the product is the number
  \<open>a\<^sub>0\<^sub>0 * b\<^sub>0\<^sub>0 + \<dots> + a\<^sub>m\<^sub>-\<^sub>1\<^sub>0 * b\<^sub>m\<^sub>-\<^sub>1\<^sub>0\<close> if both have the same number of rows, and
  the error "scalar product requires balanced vectors" otherwise; in every other case it
  is the matrix with \<open>a.m\<close> rows and \<open>b.n\<close> columns whose cell \<open>(i, j)\<close> is the
  inner product of row \<open>i\<close> of \<open>a\<close> and column \<open>j\<close> of \<open>b\<close> if \<open>a.n = b.m\<close>, and the
  error "cannot multiply \<dots> matrix with \<dots> matrix" otherwise.
\<close>

theorem multiply_Matrix_Matrix_products:
  assumes "wellFormed a" "wellFormed b"
  shows "multiply (Matrix a) (Matrix b) =
     (if mat_n a = 1 \<and> mat_n b = 1 then
        (if mat_m a \<noteq> mat_m b
         then Inl (Error ''Equation resolve: scalar product requires balanced vectors'')
         else Inr (Number (inner_product (mat_m a) (\<lambda>k. cellAt a k 0) (\<lambda>k. cellAt b k 0))))
      else if mat_n a \<noteq> mat_m b
      then Inl (Error (''Equation resolve: cannot multiply '' @ string_of_nat (mat_m a) @ ''x'' @
             string_of_nat (mat_n a) @ '' matrix with '' @ string_of_nat (mat_m b) @ ''x'' @
             string_of_nat (mat_n b) @ '' matrix''))
      else Inr (Matrix \<lparr>mat_m = mat_m a, mat_n = mat_n b,
                  mat_values =
                    map (\<lambda>i. map (\<lambda>j. inner_product (mat_n a) (\<lambda>k. cellAt a i k) (\<lambda>k. cellAt b k j))
                                [0..<mat_n b])
                      [0..<mat_m a]\<rparr>))"
proof (cases "mat_n a = 1 \<and> mat_n b = 1")
  case True
  then have c1: "(mat_n a = 1 \<and> mat_n b = 1) = True"
    by simp
  have m: "multiply (Matrix a) (Matrix b) = scalarProduct a b"
    by (simp only: multiply_Matrix_Matrix c1 if_True)
  show ?thesis
  proof (cases "mat_m a = mat_m b")
    case same: True
    then have c2: "(mat_m a \<noteq> mat_m b) = False"
      by simp
    from True have "mat_n a = 1" "mat_n b = 1"
      by simp_all
    then show ?thesis
      unfolding c1 c2 if_True if_False m
      by (rule scalarProduct_wellFormed [OF assms _ _ same])
  next
    case False
    then have c2: "(mat_m a \<noteq> mat_m b) = True"
      by simp
    show ?thesis
      unfolding c1 c2 if_True m using False by (simp add: scalarProduct_def)
  qed
next
  case False
  then have c1: "(mat_n a = 1 \<and> mat_n b = 1) = False"
    by simp
  have m: "multiply (Matrix a) (Matrix b) = matrixProduct a b"
    by (simp only: multiply_Matrix_Matrix c1 if_False)
  show ?thesis
  proof (cases "mat_n a = mat_m b")
    case True
    then have c2: "(mat_n a \<noteq> mat_m b) = False"
      by simp
    show ?thesis
      unfolding c1 c2 if_False m by (rule matrixProduct_wellFormed [OF assms True])
  next
    case shape: False
    then have c2: "(mat_n a \<noteq> mat_m b) = True"
      by simp
    show ?thesis
      unfolding c1 c2 if_True if_False m using shape by (simp add: matrixProduct_def)
  qed
qed

theorem multiply_Matrix_Matrix_products_witness:
  "wellFormed \<lparr>mat_m = 3, mat_n = 1, mat_values = [[1], [2], [3::int]]\<rparr> \<and>
   wellFormed \<lparr>mat_m = 3, mat_n = 1, mat_values = [[4], [5], [6::int]]\<rparr> \<and>
   multiply (Matrix \<lparr>mat_m = 3, mat_n = 1, mat_values = [[1], [2], [3::int]]\<rparr>)
            (Matrix \<lparr>mat_m = 3, mat_n = 1, mat_values = [[4], [5], [6]]\<rparr>) = Inr (Number 32) \<and>
   wellFormed \<lparr>mat_m = 2, mat_n = 3, mat_values = [[1, 2, 3], [4, 5, 6::int]]\<rparr> \<and>
   wellFormed \<lparr>mat_m = 3, mat_n = 2, mat_values = [[7, 8], [9, 10], [11, 12::int]]\<rparr> \<and>
   multiply (Matrix \<lparr>mat_m = 2, mat_n = 3, mat_values = [[1, 2, 3], [4, 5, 6::int]]\<rparr>)
            (Matrix \<lparr>mat_m = 3, mat_n = 2, mat_values = [[7, 8], [9, 10], [11, 12]]\<rparr>) =
     Inr (Matrix \<lparr>mat_m = 2, mat_n = 2, mat_values = [[58, 64], [139, 154]]\<rparr>) \<and>
   wellFormed \<lparr>mat_m = 2, mat_n = 2, mat_values = [[1, 0], [0, 1::int]]\<rparr> \<and>
   multiply (Matrix \<lparr>mat_m = 2, mat_n = 3, mat_values = [[1, 2, 3], [4, 5, 6::int]]\<rparr>)
            (Matrix \<lparr>mat_m = 2, mat_n = 2, mat_values = [[1, 0], [0, 1]]\<rparr>) =
     Inl (Error ''Equation resolve: cannot multiply 2x3 matrix with 2x2 matrix'')"
proof -
  let ?u = "\<lparr>mat_m = 3, mat_n = 1, mat_values = [[1], [2], [3::int]]\<rparr>"
  let ?v = "\<lparr>mat_m = 3, mat_n = 1, mat_values = [[4], [5], [6::int]]\<rparr>"
  let ?a = "\<lparr>mat_m = 2, mat_n = 3, mat_values = [[1, 2, 3], [4, 5, 6::int]]\<rparr>"
  let ?b = "\<lparr>mat_m = 3, mat_n = 2, mat_values = [[7, 8], [9, 10], [11, 12::int]]\<rparr>"
  let ?c = "\<lparr>mat_m = 2, mat_n = 2, mat_values = [[1, 0], [0, 1::int]]\<rparr>"
  have wf: "wellFormed ?u" "wellFormed ?v" "wellFormed ?a" "wellFormed ?b" "wellFormed ?c"
    by (simp_all add: wellFormed_def)
  have digits: "string_of_nat 2 = ''2''" "string_of_nat 3 = ''3''"
    by (simp_all add: string_of_nat.simps)
  have ranges: "[0..<2] = [0, 1]" "[0..<3] = [0, 1, 2]"
    by (simp_all add: upt_rec)
  from multiply_Matrix_Matrix_products [OF wf(1) wf(2)] multiply_Matrix_Matrix_products [OF wf(3) wf(4)] multiply_Matrix_Matrix_products [OF wf(3) wf(5)] wf
  show ?thesis
    by (simp add: inner_product_def cellAt_def digits ranges)
qed

section \<open>Commutativity\<close>

text \<open>
  Let the addition and the multiplication of numbers be commutative (they are for
  floating-point numbers, and this is all that is assumed of them), and let \<open>a\<close> and
  \<open>b\<close> be numbers, each bare or inside a unit none of whose keys is the name of a member
  of \<^verbatim>\<open>Object.prototype\<close>. Then \<^verbatim>\<open>plus(a, b)\<close> and \<^verbatim>\<open>plus(b, a)\<close> are the same value or
  raise the same error, and so are \<^verbatim>\<open>multiply(a, b)\<close> and \<^verbatim>\<open>multiply(b, a)\<close>. The two
  unit maps have the same entries; the order of their keys may differ (\<open>m s\<close> and
  \<open>s m\<close>).
\<close>

lemma plus_op_multiply_commute_on_ordinary_scalars:
  fixes a b :: "'a::{zero,plus,times} result_tree"
  assumes "\<And>x y :: 'a. x + y = y + x" and "\<And>x y :: 'a. x * y = y * x"
    and "isScalar a" and "isScalar b"
    and "ordinaryKeys (getUnit a)" and "ordinaryKeys (getUnit b)"
  shows "sameResult (plus_op a b) (plus_op b a) \<and> sameResult (multiply a b) (multiply b a)"
  using plus_op_scalars_commute [OF assms(1,3,4)] multiply_scalars_commute [OF assms]
  by (rule conjI)

text \<open>
  \<open>3[m]\<close> and \<open>4[m]\<close> add up to \<open>7[m]\<close> in either order, and their products are
  \<open>12[m^2]\<close>; \<open>3[m]\<close> and \<open>4[s]\<close> cannot be added in either order, and their products
  are \<open>12\<close> in \<open>m s\<close> and in \<open>s m\<close>.
\<close>

lemma plus_op_multiply_commute_example:
  "sameResult (plus_op (Unit [(''m'', 1)] (Number (3::int))) (Unit [(''m'', 1)] (Number 4)))
              (plus_op (Unit [(''m'', 1)] (Number 4)) (Unit [(''m'', 1)] (Number (3::int)))) \<and>
   plus_op (Unit [(''m'', 1)] (Number (3::int))) (Unit [(''m'', 1)] (Number 4)) =
     Inr (Unit [(''m'', 1)] (Number 7)) \<and>
   plus_op (Unit [(''m'', 1)] (Number 4)) (Unit [(''m'', 1)] (Number (3::int))) =
     Inr (Unit [(''m'', 1)] (Number 7)) \<and>
   multiply (Unit [(''m'', 1)] (Number (3::int))) (Unit [(''m'', 1)] (Number 4)) =
     Inr (Unit [(''m'', 2)] (Number 12)) \<and>
   plus_op (Unit [(''m'', 1)] (Number (3::int))) (Unit [(''s'', 1)] (Number 4)) =
     Inl (Error ''Equation resolve: cannot add different units'') \<and>
   plus_op (Unit [(''s'', 1)] (Number 4)) (Unit [(''m'', 1)] (Number (3::int))) =
     Inl (Error ''Equation resolve: cannot add different units'') \<and>
   sameResult (multiply (Unit [(''m'', 1)] (Number (3::int))) (Unit [(''s'', 1)] (Number 4)))
              (multiply (Unit [(''s'', 1)] (Number 4)) (Unit [(''m'', 1)] (Number (3::int)))) \<and>
   multiply (Unit [(''m'', 1)] (Number (3::int))) (Unit [(''s'', 1)] (Number 4)) =
     Inr (Unit [(''m'', 1), (''s'', 1)] (Number 12)) \<and>
   multiply (Unit [(''s'', 1)] (Number 4)) (Unit [(''m'', 1)] (Number (3::int))) =
     Inr (Unit [(''s'', 1), (''m'', 1)] (Number 12))"
proof -
  have add: "\<And>x y :: int. x + y = y + x" and mult: "\<And>x y :: int. x * y = y * x"
    by simp_all
  have a: "isScalar (Unit [(''m'', 1)] (Number (3::int)))"
    and b: "isScalar (Unit [(''s'', 1)] (Number (4::int)))"
    and c: "isScalar (Unit [(''m'', 1)] (Number (4::int)))"
    by simp_all
  have ka: "ordinaryKeys (getUnit (Unit [(''m'', 1)] (Number (3::int))))"
    and kb: "ordinaryKeys (getUnit (Unit [(''s'', 1)] (Number (4::int))))"
    and kc: "ordinaryKeys (getUnit (Unit [(''m'', 1)] (Number (4::int))))"
    by (simp_all add: ordinaryKeys_def objectPrototypeKeys_def)
  from plus_op_multiply_commute_on_ordinary_scalars [OF add mult a b ka kb]
    plus_op_multiply_commute_on_ordinary_scalars [OF add mult a c ka kc]
  show ?thesis
    by (simp add: multiply_scalars plus_op_Unit plus_op_Number_Number valueWrap_def
        isSameUnit_def wrapUnit_def isEmptyUnit_def mapUnits_def mapUnits_st_def mapUnit_st_def
        getProperty_def objectPrototypeKeys_def)
qed

text \<open>
  C8 (addition and multiplication commute on scalars). \<^verbatim>\<open>multiply\<close> combines the units
  of its operands with \<^verbatim>\<open>mapUnits\<close>, whose reads \<^verbatim>\<open>a[key]\<close> and \<^verbatim>\<open>b[key] || 0\<close> go
  through the prototype chain. With a unit named as a member of \<^verbatim>\<open>Object.prototype\<close> the
  two orders differ. For all numbers \<open>x\<close>, \<open>y\<close> and every exponent \<open>e\<close>, the product
  of \<open>x\<close> and \<open>y\<close> in \<^verbatim>\<open>constructor^e\<close> is the bare number \<open>x * y\<close>: the key of the
  second operand is skipped and the unit is lost. In the other order the key is visited,
  with the inherited member as the exponent of the second operand: the unit of the
  product is \<^verbatim>\<open>constructor\<close> with the exponent \<open>e + inheritedMember ''constructor''\<close>,
  unless that is \<open>0\<close>. At the natural numbers, where \<open>1 + v\<close> is not \<open>0\<close> whatever \<open>v\<close>
  is (in JavaScript \<^verbatim>\<open>1 + Object\<close> is a string, and not \<open>0\<close>), \<open>2 * 3[constructor]\<close> is
  the bare \<open>6\<close> and \<open>3[constructor] * 2\<close> is \<open>6\<close> in a unit: the two products are not
  the same value. With units on both operands, \<open>2[m] * 3[constructor]\<close> is \<open>6[m]\<close>, and
  \<open>3[constructor] * 2[m]\<close> is \<open>6\<close> in a unit of \<^verbatim>\<open>constructor\<close> and \<open>m\<close>.
\<close>

theorem multiply_key_of_Object_prototype_not_commutative:
  "multiply (Number x) (Unit [(''constructor'', e)] (Number y)) = Inr (Number (x * y)) \<and>
   multiply (Unit [(''constructor'', e)] (Number y)) (Number x) =
     Inr (wrapUnit (keep_nonzero ''constructor'' (e + inheritedMember ''constructor'') [])
            (Number (y * x))) \<and>
   multiply (Number 2) (Unit [(''constructor'', 1)] (Number (3::nat))) = Inr (Number 6) \<and>
   multiply (Unit [(''constructor'', 1)] (Number (3::nat))) (Number 2) =
     Inr (Unit [(''constructor'', 1 + inheritedMember ''constructor'')] (Number 6)) \<and>
   multiply (Unit [(''m'', 1)] (Number 2)) (Unit [(''constructor'', 1)] (Number (3::nat))) =
     Inr (Unit [(''m'', 1)] (Number 6)) \<and>
   multiply (Unit [(''constructor'', 1)] (Number (3::nat))) (Unit [(''m'', 1)] (Number 2)) =
     Inr (Unit [(''constructor'', 1 + inheritedMember ''constructor''), (''m'', 1)]
            (Number 6)) \<and>
   \<not> sameResult (multiply (Number 2) (Unit [(''constructor'', 1)] (Number (3::nat))))
                (multiply (Unit [(''constructor'', 1)] (Number (3::nat))) (Number 2))"
  by (simp add: multiply_scalars wrapUnit_def isEmptyUnit_def keep_nonzero_def
      mapUnits_def mapUnits_st_def mapUnit_st_def getProperty_def objectPrototypeKeys_def)

section \<open>Units in the case handler\<close>

text \<open>
  C1 (one unit combination and one unit layer per call). Let \<open>a\<close> and \<open>b\<close> be operands
  of the data model (a unit wraps a number or a matrix), at least one of them a unit.
  Then the two trees the handler calls itself on are no units, so that this inner call is
  the dispatch on shapes and does not use the unit rule (any rule \<open>anyRule\<close> gives the
  same); the call applies the unit rule once, to the two unit maps, before the inner call,
  and returns the inner result bare when the combined map is empty and inside one unit
  otherwise. So, with combinators that return numbers and matrices, a result has no unit
  directly inside a unit; this holds for the results of all six operators.
\<close>

theorem handleCases_units_once_single_layer:
  fixes a b :: "'a::{zero,plus,minus,uminus,times,inverse} result_tree"
  assumes "isUnit a \<or> isUnit b" and "flat a" and "flat b"
  shows "\<not> isUnit (getUnitless a) \<and> \<not> isUnit (getUnitless b) \<and>
     handleCases a b combineUnits nn nm mn mm =
       andThen (combineUnits (getUnit a) (getUnit b)) (\<lambda>units.
       andThen (handleCases (getUnitless a) (getUnitless b) anyRule nn nm mn mm) (\<lambda>result.
       Inr (if isEmptyUnit units then result else Unit units result))) \<and>
     (unitlessResults nn nm mn mm \<longrightarrow>
        (\<forall>r. handleCases a b combineUnits nn nm mn mm = Inr r \<longrightarrow> flat r)) \<and>
     (\<forall>r. plus_op a b = Inr r \<or> minus_op a b = Inr r \<or> multiply a b = Inr r \<or>
          multiplyImplied a b = Inr r \<or> divide_op a b = Inr r \<or>
          power_op Math_pow a b = Inr r \<longrightarrow> flat r)"
proof (intro conjI)
  show "\<not> isUnit (getUnitless a)" "\<not> isUnit (getUnitless b)"
    using assms(2,3) by (simp_all add: flat_getUnitless)
  show "handleCases a b combineUnits nn nm mn mm =
       andThen (combineUnits (getUnit a) (getUnit b)) (\<lambda>units.
       andThen (handleCases (getUnitless a) (getUnitless b) anyRule nn nm mn mm) (\<lambda>result.
       Inr (if isEmptyUnit units then result else Unit units result)))"
    using handleCases_Unit_wrap [OF assms, of combineUnits nn nm mn mm anyRule]
    by (simp add: wrapUnit_def)
  show "unitlessResults nn nm mn mm \<longrightarrow>
        (\<forall>r. handleCases a b combineUnits nn nm mn mm = Inr r \<longrightarrow> flat r)"
    using handleCases_flat [OF assms(2,3), of nn nm mn mm combineUnits] by blast
  show "\<forall>r. plus_op a b = Inr r \<or> minus_op a b = Inr r \<or> multiply a b = Inr r \<or>
          multiplyImplied a b = Inr r \<or> divide_op a b = Inr r \<or>
          power_op Math_pow a b = Inr r \<longrightarrow> flat r"
    using plus_op_flat [OF assms(2,3)] minus_op_flat [OF assms(2,3)]
      multiply_flat [OF assms(2,3)] multiplyImplied_flat [OF assms(2,3)]
      divide_op_flat [OF assms(2,3)] power_op_flat [OF assms(2,3)]
    by blast
qed

theorem handleCases_units_once_single_layer_witness:
  "(isUnit (Unit [(''m'', 1)] (Number (3::real))) \<or> isUnit (Unit [(''s'', 1)] (Number (4::real)))) \<and>
   flat (Unit [(''m'', 1)] (Number (3::real))) \<and> flat (Unit [(''s'', 1)] (Number (4::real))) \<and>
   unitlessResults (Some (\<lambda>x y. Inr (Number (x * y)))) None None None \<and>
   handleCases (Unit [(''m'', 1)] (Number (3::real))) (Unit [(''s'', 1)] (Number 4))
       (\<lambda>u v. Inr (u @ v)) (Some (\<lambda>x y. Inr (Number (x * y)))) None None None =
     Inr (Unit [(''m'', 1), (''s'', 1)] (Number 12)) \<and>
   flat (Unit [(''m'', 1), (''s'', 1)] (Number (12::real)))"
proof -
  let ?a = "Unit [(''m'', 1)] (Number (3::real))" and ?b = "Unit [(''s'', 1)] (Number (4::real))"
  have ab: "isUnit ?a \<or> isUnit ?b" and a: "flat ?a" and b: "flat ?b"
    by simp_all
  from handleCases_units_once_single_layer [OF ab a b, of "\<lambda>u v. Inr (u @ v)"
      "Some (\<lambda>x y. Inr (Number (x * y)))" None None None "\<lambda>u v. Inl TypeError"]
  show ?thesis
    by (simp add: handleCases_Number_Number isEmptyUnit_def unitlessResults_def)
qed

end
